theory Spec2Isabelle
  imports Complex_Main "HOL-Library.Sublist"
begin

section \<open>The session engine of pyadtpulse (class PyADTPulse)\<close>

text \<open>
  A shallow embedding of \<^verbatim>\<open>pyadtpulse/__init__.py\<close>. A method or coroutine of the
  class becomes a function from the object's state to a result and the new state. An
  exception is the \<open>Inl\<close> of the result; the state that comes with it is the one the
  object is left in when the exception leaves the function.

  Modelling decisions.
  \<^item> Python strings are lists of code points below 256.
  \<^item> Python floats (timestamps, intervals) are real numbers.
  \<^item> A coroutine runs from its call to its return without another task changing the
    object in between. The two background tasks are modelled one loop iteration at a
    time; what other tasks do while a task sleeps is modelled by running their iterations
    between the iterations of that task.
  \<^item> \<^verbatim>\<open>_attribute_lock\<close> has no effect in such a run and is left out.
  \<^item> The thread bridge (\<^verbatim>\<open>login\<close>, \<^verbatim>\<open>logout\<close>, \<^verbatim>\<open>_pulse_session_thread\<close>,
    \<^verbatim>\<open>_sync_loop\<close>) is not modelled: which thread runs a coroutine and which thread
    waits for it has no counterpart here. Of \<^verbatim>\<open>query\<close> and \<^verbatim>\<open>update\<close> the model
    keeps the check for the loop and the coroutine they run.
  \<^item> Everything outside the file (the constants of \<^verbatim>\<open>pyadtpulse.const\<close>, the helpers of
    \<^verbatim>\<open>pyadtpulse.util\<close>, BeautifulSoup, the site layer, the server, the clock and the
    scheduler that may cancel a task at an \<^verbatim>\<open>await\<close>) is a field of the record
    \<open>world\<close>, which every function takes as its first argument.
\<close>

subsection \<open>Exceptions, log levels, requests and responses\<close>

datatype error =
    ValueError string
  | RuntimeError string
  | CancelledError
  | OtherError string

datatype log_level = DEBUG | INFO | WARNING | ERROR

text \<open>The numeric levels of Python's \<^verbatim>\<open>logging\<close> module.\<close>

fun severity :: "log_level \<Rightarrow> nat" where
  "severity DEBUG = 10"
| "severity INFO = 20"
| "severity WARNING = 30"
| "severity ERROR = 40"

datatype param = PStr string | PInt int

record request =
  req_method :: string
  req_url :: string
  req_params :: "(string \<times> param) list option"
  req_headers :: "(string \<times> string) list option"
  req_timeout :: "nat option"

record response =
  resp_status :: nat
  resp_text :: string
  resp_url :: string
  resp_closed :: bool

text \<open>
  What one HTTP call of the aiohttp session can do: answer with a status, a body and the
  final URL; fail with \<^verbatim>\<open>ClientConnectionError\<close>; or raise anything else at the
  \<^verbatim>\<open>await\<close> (\<^verbatim>\<open>CancelledError\<close> when the running task is cancelled there,
  \<^verbatim>\<open>asyncio.TimeoutError\<close>, ...), which no handler of \<^verbatim>\<open>_async_query\<close> catches.
\<close>

datatype http_outcome =
    Responded nat string string
  | ConnectionFailed
  | Interrupted error

text \<open>
  The observable effects of a run, in the order they happen: log calls, HTTP requests,
  sleeps, entries into \<^verbatim>\<open>async_login\<close> and \<^verbatim>\<open>async_update\<close>, and what is done to
  tasks and to the HTTP session.
\<close>

datatype event =
    EvLog log_level string
  | EvRequest request
  | EvSleep real
  | EvLogin
  | EvUpdate
  | EvCreateTask string nat
  | EvCancelTask nat
  | EvAwaitTask nat
  | EvSessionClose

subsection \<open>The world outside the file\<close>

record ('soup, 'site) world =
  ADT_DEFAULT_HTTP_HEADERS :: "string \<rightharpoonup> string"
  ADT_DEFAULT_ACCEPT :: string
  ADT_DEFAULT_VERSION :: string
  ADT_DEVICE_URI :: string
  ADT_HTTP_REFERER_URIS :: "string list"
  ADT_LOGIN_URI :: string
  ADT_LOGOUT_URI :: string
  ADT_ORB_URI :: string
  ADT_SYNC_CHECK_URI :: string
  ADT_SYSTEM_URI :: string
  ADT_TIMEOUT_INTERVAL :: real
  ADT_TIMEOUT_URI :: string
  API_PREFIX :: string
  handle_response :: "response option \<Rightarrow> bool"
  make_soup :: "response option \<Rightarrow> 'soup option"
  find_warn :: "'soup \<Rightarrow> bool"
  update_sites :: "'soup \<Rightarrow> 'site list \<Rightarrow> error + 'site list"
  http :: "nat \<Rightarrow> request \<Rightarrow> http_outcome"
  wall_clock :: "nat \<Rightarrow> real"
  sleep_cancelled :: "nat \<Rightarrow> bool"

text \<open>
  \<^item> The upper-case fields are the constants imported from \<^verbatim>\<open>pyadtpulse.const\<close>;
    \<open>ADT_DEFAULT_ACCEPT\<close> is the value of \<^verbatim>\<open>ADT_DEFAULT_HTTP_HEADERS["Accept"]\<close>.
  \<^item> \<open>handle_response\<close> and \<open>make_soup\<close> are the results of the helpers of
    \<^verbatim>\<open>pyadtpulse.util\<close> (their log level and message arguments do not reach the state).
  \<^item> \<open>find_warn soup\<close> is the truth value of
    \<^verbatim>\<open>soup.find("div", {"id": "warnMsgContents"})\<close>.
  \<^item> \<open>update_sites\<close> is \<^verbatim>\<open>_update_sites\<close>: it drives the site layer
    (\<^verbatim>\<open>pyadtpulse.site\<close>) on the list \<^verbatim>\<open>_sites\<close> and may raise.
  \<^item> \<open>http n rq\<close> is what the server and the network do to the request \<open>rq\<close> when it is
    the \<open>n\<close>-th interaction of the object with its environment; \<open>wall_clock n\<close> is what
    \<^verbatim>\<open>time.time()\<close> returns there; \<open>sleep_cancelled n\<close> tells whether the task is
    cancelled during an \<^verbatim>\<open>asyncio.sleep\<close> there.
\<close>

subsection \<open>The object\<close>

record client_session =
  headers :: "string \<rightharpoonup> string"
  session_closed :: bool

text \<open>
  The attributes of a \<^verbatim>\<open>PyADTPulse\<close> object, without their leading underscore. An
  \<^verbatim>\<open>asyncio.Event\<close> attribute is \<open>None\<close> or \<open>Some flag\<close>; a task attribute is
  \<open>None\<close> or the number of the task. The last three fields are not attributes: \<open>step\<close>
  counts the interactions with the environment, \<open>next_task\<close> numbers the tasks created,
  and \<open>trace\<close> lists the events so far.
\<close>

record 'site pulse =
  session :: "client_session option"
  username :: string
  password :: string
  fingerprint :: string
  user_agent :: string
  api_version :: string
  sync_task :: "nat option"
  timeout_task :: "nat option"
  authenticated :: "bool option"
  updates_exist_event :: "bool option"
  event_loop :: bool
  session_thread :: bool
  last_timeout_reset :: real
  sync_timestamp :: real
  sites :: "'site list"
  api_host :: string
  poll_interval :: real
  step :: nat
  next_task :: nat
  trace :: "event list"

text \<open>\<^verbatim>\<open>RECOVERABLE_ERRORS\<close> (line 46). No function of the file reads it.\<close>

definition RECOVERABLE_ERRORS :: "nat list" where
  "RECOVERABLE_ERRORS = [429, 500, 502, 503, 504]"

subsection \<open>Primitive effects\<close>

definition emit :: "event \<Rightarrow> 'site pulse \<Rightarrow> 'site pulse" where
  "emit ev s = s\<lparr>trace := trace s @ [ev]\<rparr>"

definition LOG :: "log_level \<Rightarrow> string \<Rightarrow> 'site pulse \<Rightarrow> 'site pulse" where
  "LOG lvl msg s = emit (EvLog lvl msg) s"

definition advance :: "'site pulse \<Rightarrow> 'site pulse" where
  "advance s = s\<lparr>step := Suc (step s)\<rparr>"

definition time_time :: "('soup, 'site) world \<Rightarrow> 'site pulse \<Rightarrow> real \<times> 'site pulse" where
  "time_time w s = (wall_clock w (step s), advance s)"

definition asyncio_sleep ::
  "('soup, 'site) world \<Rightarrow> real \<Rightarrow> 'site pulse \<Rightarrow> (error + unit) \<times> 'site pulse" where
  "asyncio_sleep w d s =
     (if sleep_cancelled w (step s) then Inl CancelledError else Inr (),
      emit (EvSleep d) (advance s))"

definition http_call ::
  "('soup, 'site) world \<Rightarrow> request \<Rightarrow> 'site pulse \<Rightarrow> http_outcome \<times> 'site pulse" where
  "http_call w rq s = (http w (step s) rq, emit (EvRequest rq) (advance s))"

definition create_task :: "string \<Rightarrow> 'site pulse \<Rightarrow> nat \<times> 'site pulse" where
  "create_task name s =
     (next_task s, emit (EvCreateTask name (next_task s)) (s\<lparr>next_task := Suc (next_task s)\<rparr>))"

text \<open>
  \<^verbatim>\<open>Task.cancel()\<close> asks for the cancellation and returns: the \<^verbatim>\<open>CancelledError\<close> is
  raised later inside the cancelled task, never in the caller.
\<close>

definition task_cancel :: "nat \<Rightarrow> 'site pulse \<Rightarrow> (error + bool) \<times> 'site pulse" where
  "task_cancel t s = (Inr True, emit (EvCancelTask t) s)"

definition await_task :: "nat \<Rightarrow> 'site pulse \<Rightarrow> 'site pulse" where
  "await_task t s = emit (EvAwaitTask t) s"

definition update_headers :: "(string \<rightharpoonup> string) \<Rightarrow> 'site pulse \<Rightarrow> 'site pulse" where
  "update_headers new s =
     s\<lparr>session := map_option (\<lambda>c. c\<lparr>headers := headers c ++ new\<rparr>) (session s)\<rparr>"

text \<open>\<^verbatim>\<open>_close_response\<close> (lines 311-313), on the value of the local variable.\<close>

definition close_response :: "response option \<Rightarrow> response option" where
  "close_response r =
     (case r of None \<Rightarrow> None
      | Some x \<Rightarrow> if \<not> resp_closed x then Some (x\<lparr>resp_closed := True\<rparr>) else Some x)"

subsection \<open>Properties and setters\<close>

text \<open>\<^verbatim>\<open>is_connected\<close> (lines 576-593).\<close>

definition is_connected :: "'site pulse \<Rightarrow> bool" where
  "is_connected s = (case authenticated s of None \<Rightarrow> False | Some flag \<Rightarrow> flag)"

text \<open>\<^verbatim>\<open>make_url\<close> (lines 151-163).\<close>

definition make_url :: "('soup, 'site) world \<Rightarrow> string \<Rightarrow> 'site pulse \<Rightarrow> string" where
  "make_url w uri s = api_host s @ API_PREFIX w @ api_version s @ uri"

text \<open>The \<^verbatim>\<open>updates_exist\<close> property (lines 543-563): test and clear.\<close>

definition updates_exist :: "'site pulse \<Rightarrow> bool \<times> 'site pulse" where
  "updates_exist s =
     (case updates_exist_event s of
        None \<Rightarrow> (False, s)
      | Some flag \<Rightarrow>
          if flag then (True, s\<lparr>updates_exist_event := Some False\<rparr>) else (False, s))"

text \<open>
  \<^verbatim>\<open>wait_for_update\<close> (lines 565-574). The coroutine either raises, or returns at once
  after clearing a set event, or is suspended in \<^verbatim>\<open>Event.wait()\<close>.
\<close>

datatype 'a waiting = Suspended | Resumed 'a

definition wait_for_update :: "'site pulse \<Rightarrow> error + 'site pulse waiting" where
  "wait_for_update s =
     (case updates_exist_event s of
        None \<Rightarrow> Inl (RuntimeError ''Update event does not exist'')
      | Some flag \<Rightarrow>
          if flag then Inr (Resumed (s\<lparr>updates_exist_event := Some False\<rparr>))
          else Inr Suspended)"

text \<open>The \<^verbatim>\<open>poll_interval\<close> setter (lines 177-189) and \<^verbatim>\<open>set_service_host\<close> (136-149).\<close>

definition set_poll_interval :: "real \<Rightarrow> 'site pulse \<Rightarrow> 'site pulse" where
  "set_poll_interval interval s = s\<lparr>poll_interval := interval\<rparr>"

definition set_service_host ::
  "('soup, 'site) world \<Rightarrow> string \<Rightarrow> 'site pulse \<Rightarrow> 'site pulse" where
  "set_service_host w host s =
     (case session s of
        None \<Rightarrow> s\<lparr>api_host := ''https://'' @ host\<rparr>
      | Some c \<Rightarrow>
          update_headers (ADT_DEFAULT_HTTP_HEADERS w)
            (update_headers [''Host'' \<mapsto> host] (s\<lparr>api_host := ''https://'' @ host\<rparr>)))"

subsection \<open>The three regular expressions of the file\<close>

text \<open>
  Character classes of Python's \<^verbatim>\<open>re\<close> on \<^verbatim>\<open>str\<close> patterns, for code points
  below 256: \<^verbatim>\<open>\d\<close> is a decimal digit, \<^verbatim>\<open>\w\<close> is an alphanumeric character (in
  Unicode's sense) or the underscore, \<^verbatim>\<open>.\<close> is anything but a newline.
\<close>

definition is_digit :: "char \<Rightarrow> bool" where
  "is_digit c = (let n = (of_char c :: nat) in 48 \<le> n \<and> n \<le> 57)"

definition is_upper :: "char \<Rightarrow> bool" where
  "is_upper c = (let n = (of_char c :: nat) in 65 \<le> n \<and> n \<le> 90)"

definition is_lower :: "char \<Rightarrow> bool" where
  "is_lower c = (let n = (of_char c :: nat) in 97 \<le> n \<and> n \<le> 122)"

definition is_word_char :: "char \<Rightarrow> bool" where
  "is_word_char c =
     (let n = (of_char c :: nat)
      in is_digit c \<or> is_upper c \<or> is_lower c \<or> n = 95
         \<or> n = 170 \<or> n = 178 \<or> n = 179 \<or> n = 181 \<or> n = 185 \<or> n = 186
         \<or> n = 188 \<or> n = 189 \<or> n = 190
         \<or> (192 \<le> n \<and> n \<le> 214) \<or> (216 \<le> n \<and> n \<le> 246) \<or> 248 \<le> n)"

text \<open>
  The user name pattern of \<^verbatim>\<open>_init_login_info\<close> (line 118), used with
  \<^verbatim>\<open>re.match\<close>, which anchors the match at the start of the string only:
  \<^verbatim>\<open>\b[A-Za-z0-9._%+-]+@[A-Za-z0-9.-]+\.[A-Z|a-z]{2,}\b\<close>.
  Each function below tells whether the rest of the pattern can match a prefix of the
  rest of the string; the number counts the characters the current repetition has taken.
\<close>

definition local_char :: "char \<Rightarrow> bool" where
  "local_char c = (is_upper c \<or> is_lower c \<or> is_digit c \<or> c \<in> set ''._%+-'')"

definition domain_char :: "char \<Rightarrow> bool" where
  "domain_char c = (is_upper c \<or> is_lower c \<or> is_digit c \<or> c \<in> set ''.-'')"

definition tld_char :: "char \<Rightarrow> bool" where
  "tld_char c = (is_upper c \<or> c = CHR ''|'' \<or> is_lower c)"

fun match_tld :: "nat \<Rightarrow> char \<Rightarrow> string \<Rightarrow> bool" where
  "match_tld n prev [] = (2 \<le> n \<and> is_word_char prev)"
| "match_tld n prev (c # cs) =
     ((2 \<le> n \<and> is_word_char prev \<noteq> is_word_char c) \<or> (tld_char c \<and> match_tld (Suc n) c cs))"

fun match_domain :: "nat \<Rightarrow> string \<Rightarrow> bool" where
  "match_domain n [] = False"
| "match_domain n (c # cs) =
     ((1 \<le> n \<and> c = CHR ''.'' \<and> (case cs of [] \<Rightarrow> False | d # ds \<Rightarrow> tld_char d \<and> match_tld 1 d ds))
      \<or> (domain_char c \<and> match_domain (Suc n) cs))"

fun match_local :: "nat \<Rightarrow> string \<Rightarrow> bool" where
  "match_local n [] = False"
| "match_local n (c # cs) =
     ((1 \<le> n \<and> c = CHR ''@'' \<and> match_domain 0 cs) \<or> (local_char c \<and> match_local (Suc n) cs))"

definition email_match :: "string \<Rightarrow> bool" where
  "email_match u = (case u of [] \<Rightarrow> False | c # cs \<Rightarrow> is_word_char c \<and> match_local 0 u)"

text \<open>
  The sync token pattern of \<^verbatim>\<open>_sync_check_task\<close> (line 513), \<^verbatim>\<open>\d+[-]\d+[-]\d+\<close>,
  again with \<^verbatim>\<open>re.match\<close>: three runs of digits separated by hyphens at the start of
  the text, whatever follows.
\<close>

definition token_match :: "string \<Rightarrow> bool" where
  "token_match t =
     (takeWhile is_digit t \<noteq> [] \<and>
      (case dropWhile is_digit t of
         [] \<Rightarrow> False
       | c # r \<Rightarrow>
           c = CHR ''-'' \<and> takeWhile is_digit r \<noteq> [] \<and>
           (case dropWhile is_digit r of
              [] \<Rightarrow> False
            | d # q \<Rightarrow> d = CHR ''-'' \<and> takeWhile is_digit q \<noteq> [])))"

text \<open>\<^verbatim>\<open>str.endswith\<close>.\<close>

definition endswith :: "string \<Rightarrow> string \<Rightarrow> bool" where
  "endswith t suf = (length suf \<le> length t \<and> drop (length t - length suf) t = suf)"

text \<open>
  The version pattern of \<^verbatim>\<open>_async_fetch_version\<close> (line 237),
  \<^verbatim>\<open>/myhome/(.+)/[a-z]*/\<close>, with \<^verbatim>\<open>re.search\<close>: the leftmost match, and in it the
  longest group. \<open>version_tail\<close> matches \<^verbatim>\<open>[a-z]*/\<close>, \<open>version_group\<close> returns the
  longest \<^verbatim>\<open>(.+)\<close> that the rest of the pattern can follow.
\<close>

fun version_tail :: "string \<Rightarrow> bool" where
  "version_tail [] = False"
| "version_tail (c # cs) = (c = CHR ''/'' \<or> (is_lower c \<and> version_tail cs))"

fun version_group :: "string \<Rightarrow> string option" where
  "version_group [] = None"
| "version_group (c # cs) =
     (if c = CHR 0x0A then None
      else case version_group cs of
             Some g \<Rightarrow> Some (c # g)
           | None \<Rightarrow>
               (case cs of
                  [] \<Rightarrow> None
                | d # ds \<Rightarrow> if d = CHR ''/'' \<and> version_tail ds then Some [c] else None))"

fun version_search :: "string \<Rightarrow> string option" where
  "version_search [] = None"
| "version_search (c # cs) =
     (if take 8 (c # cs) = ''/myhome/''
      then (case version_group (drop 8 (c # cs)) of
              Some g \<Rightarrow> Some g
            | None \<Rightarrow> version_search cs)
      else version_search cs)"

subsection \<open>Construction\<close>

text \<open>
  \<^verbatim>\<open>_init_login_info\<close> (lines 115-127). The arguments may be \<^verbatim>\<open>None\<close>. The result is
  the three attributes that the method stores.
\<close>

definition init_login_info ::
  "string option \<Rightarrow> string option \<Rightarrow> string option \<Rightarrow> error + (string \<times> string \<times> string)" where
  "init_login_info uname pw fp =
     (case uname of
        None \<Rightarrow> Inl (ValueError ''Username is madatory'')
      | Some u \<Rightarrow>
          if u = [] then Inl (ValueError ''Username is madatory'')
          else if \<not> email_match u then Inl (ValueError ''Username must be an email address'')
          else (case pw of
                  None \<Rightarrow> Inl (ValueError ''Password is mandatory'')
                | Some p \<Rightarrow>
                    if p = [] then Inl (ValueError ''Password is mandatory'')
                    else (case fp of
                            None \<Rightarrow> Inl (ValueError ''Fingerprint is required'')
                          | Some f \<Rightarrow>
                              if f = [] then Inl (ValueError ''Fingerprint is required'')
                              else Inr (u, p, f))))"

text \<open>
  \<^verbatim>\<open>__init__\<close> (lines 84-109), up to the final \<^verbatim>\<open>if do_login and self._session is None:
  self.login()\<close>, which belongs to the thread bridge. \<^verbatim>\<open>time.time()\<close> is the first
  interaction with the environment.
\<close>

definition pulse_new ::
  "('soup, 'site) world \<Rightarrow> string option \<Rightarrow> string option \<Rightarrow> string option \<Rightarrow> string \<Rightarrow> string \<Rightarrow>
   client_session option \<Rightarrow> real \<Rightarrow> error + 'site pulse" where
  "pulse_new w uname pw fp service_host agent websession interval =
     (case init_login_info uname pw fp of
        Inl e \<Rightarrow> Inl e
      | Inr (u, p, f) \<Rightarrow>
          Inr \<lparr>session =
                 map_option (\<lambda>c. c\<lparr>headers := headers c ++ ADT_DEFAULT_HTTP_HEADERS w\<rparr>) websession,
               username = u, password = p, fingerprint = f, user_agent = agent,
               api_version = ADT_DEFAULT_VERSION w,
               sync_task = None, timeout_task = None,
               authenticated = None, updates_exist_event = None,
               event_loop = False, session_thread = False,
               last_timeout_reset = wall_clock w 0, sync_timestamp = 0,
               sites = [], api_host = service_host, poll_interval = interval,
               step = 1, next_task = 0, trace = []\<rparr>)"

subsection \<open>Version discovery and the request executor\<close>

text \<open>
  \<^verbatim>\<open>_async_fetch_version\<close> (lines 215-250). An aiohttp session that has been closed
  raises \<^verbatim>\<open>RuntimeError("Session is closed")\<close> on every request.
\<close>

definition version_default :: "('soup, 'site) world \<Rightarrow> 'site pulse \<Rightarrow> 'site pulse" where
  "version_default w s =
     (LOG WARNING ''Error occurred during API version fetch, defaulting'' s)
       \<lparr>api_version := ADT_DEFAULT_VERSION w\<rparr>"

definition async_fetch_version ::
  "('soup, 'site) world \<Rightarrow> 'site pulse \<Rightarrow> (error + unit) \<times> 'site pulse" where
  "async_fetch_version w s =
     (case session s of
        None \<Rightarrow> (Inr (), version_default w s)
      | Some c \<Rightarrow>
          if session_closed c then (Inl (RuntimeError ''Session is closed''), s)
          else (case http_call w \<lparr>req_method = ''GET'', req_url = api_host s, req_params = None,
                                   req_headers = None, req_timeout = None\<rparr> s of
                  (Interrupted e, s1) \<Rightarrow> (Inl e, s1)
                | (ConnectionFailed, s1) \<Rightarrow> (Inr (), version_default w s1)
                | (Responded st body u, s1) \<Rightarrow>
                    if 400 \<le> st then (Inr (), version_default w s1)
                    else (case version_search body of
                            Some v \<Rightarrow>
                              (Inr (), LOG DEBUG ''Discovered ADT Pulse version'' (s1\<lparr>api_version := v\<rparr>))
                          | None \<Rightarrow>
                              (Inr (),
                               LOG WARNING ''Could not auto-detect ADT Pulse version, defaulting''
                                 (s1\<lparr>api_version := ADT_DEFAULT_VERSION w\<rparr>)))))"

text \<open>
  \<^verbatim>\<open>_async_query\<close> from line 627 on, that is, after the forced login of lines 624-625.
  \<open>query_prepare\<close> is lines 630-638 (the \<^verbatim>\<open>Accept\<close> header and two debug messages),
  \<open>query_referer\<close> is lines 671-677. \<^verbatim>\<open>raise_for_status\<close> raises
  \<^verbatim>\<open>ClientResponseError\<close> for a status of 400 or more. The response has left its
  \<^verbatim>\<open>async with\<close> block and is closed when it is returned.
\<close>

definition query_prepare ::
  "('soup, 'site) world \<Rightarrow> string \<Rightarrow> 'site pulse \<Rightarrow> 'site pulse" where
  "query_prepare w uri s =
     LOG DEBUG ''Attempting request''
       (update_headers
          [''Accept'' \<mapsto> (if uri \<in> set (ADT_HTTP_REFERER_URIS w) then ADT_DEFAULT_ACCEPT w else ''*/*'')]
          (LOG DEBUG ''Updating HTTP headers'' s))"

definition query_referer ::
  "('soup, 'site) world \<Rightarrow> string \<Rightarrow> string \<Rightarrow> 'site pulse \<Rightarrow> 'site pulse" where
  "query_referer w uri final_url s =
     (if uri \<in> set (ADT_HTTP_REFERER_URIS w) then
        if uri = ADT_DEVICE_URI w
        then update_headers [''Referer'' \<mapsto> make_url w (ADT_SYSTEM_URI w) s] s
        else update_headers [''Referer'' \<mapsto> final_url] (LOG DEBUG ''Setting Referer'' s)
      else s)"

definition query_core ::
  "('soup, 'site) world \<Rightarrow> string \<Rightarrow> string \<Rightarrow> (string \<times> param) list option \<Rightarrow>
   (string \<times> string) list option \<Rightarrow> nat \<Rightarrow> 'site pulse \<Rightarrow>
   (error + response option) \<times> 'site pulse" where
  "query_core w uri method extra_params extra_headers timeout s =
     (case session s of
        None \<Rightarrow> (Inl (RuntimeError ''ClientSession not initialized''), s)
      | Some c \<Rightarrow>
          if method = ''GET'' \<or> method = ''POST'' then
            if session_closed c then (Inl (RuntimeError ''Session is closed''), query_prepare w uri s)
            else (case http_call w \<lparr>req_method = method, req_url = make_url w uri s,
                                     req_params = extra_params, req_headers = extra_headers,
                                     req_timeout = Some timeout\<rparr> (query_prepare w uri s) of
                    (Interrupted e, s1) \<Rightarrow> (Inl e, s1)
                  | (ConnectionFailed, s1) \<Rightarrow>
                      (Inr None, LOG ERROR ''An exception occurred in request to ADT Pulse'' s1)
                  | (Responded st body final_url, s1) \<Rightarrow>
                      if 400 \<le> st
                      then (Inr None, LOG ERROR ''Received HTTP error code in request to ADT Pulse'' s1)
                      else (Inr (Some \<lparr>resp_status = st, resp_text = body,
                                       resp_url = final_url, resp_closed = True\<rparr>),
                            query_referer w uri final_url s1))
          else (Inr None, LOG ERROR ''Invalid request method'' (query_prepare w uri s)))"

subsection \<open>Login\<close>

definition login_params :: "'site pulse \<Rightarrow> (string \<times> param) list" where
  "login_params s =
     [(''partner'', PStr ''adt''), (''usernameForm'', PStr (username s)),
      (''passwordForm'', PStr (password s)), (''fingerprint'', PStr (fingerprint s)),
      (''sun'', PStr ''yes'')]"

text \<open>
  Lines 403-422 of \<^verbatim>\<open>async_login\<close>: the session is created if there is none, a fresh
  (cleared) event replaces \<^verbatim>\<open>_authenticated\<close> (\<open>login_begin\<close>, lines 403-407), the
  version is fetched and the credentials are posted with \<^verbatim>\<open>force_login=False\<close>, which
  is \<open>query_core\<close>.
\<close>

definition login_begin :: "('soup, 'site) world \<Rightarrow> 'site pulse \<Rightarrow> 'site pulse" where
  "login_begin w s =
     LOG DEBUG ''Authenticating to ADT Pulse cloud service''
       ((case session s of
           None \<Rightarrow> s\<lparr>session := Some \<lparr>headers = ADT_DEFAULT_HTTP_HEADERS w, session_closed = False\<rparr>\<rparr>
         | Some c \<Rightarrow> s)\<lparr>authenticated := Some False\<rparr>)"

definition login_request ::
  "('soup, 'site) world \<Rightarrow> 'site pulse \<Rightarrow> (error + response option) \<times> 'site pulse" where
  "login_request w s =
     (case async_fetch_version w (login_begin w (emit EvLogin s)) of
        (Inl e, s1) \<Rightarrow> (Inl e, s1)
      | (Inr u, s1) \<Rightarrow>
          query_core w (ADT_LOGIN_URI w) ''POST'' (Some (login_params s1)) None 10 s1)"

text \<open>
  Lines 445-455 of \<^verbatim>\<open>async_login\<close>: the two tasks and the update event are created
  only where the attribute is \<^verbatim>\<open>None\<close>; then \<^verbatim>\<open>await asyncio.sleep(0)\<close>.
\<close>

definition start_sync_task :: "'site pulse \<Rightarrow> 'site pulse" where
  "start_sync_task s =
     (case sync_task s of
        None \<Rightarrow> (case create_task ''PyADTPulse sync check'' s of (t, s1) \<Rightarrow> s1\<lparr>sync_task := Some t\<rparr>)
      | Some t \<Rightarrow> s)"

definition start_timeout_task :: "'site pulse \<Rightarrow> 'site pulse" where
  "start_timeout_task s =
     (case timeout_task s of
        None \<Rightarrow> (case create_task ''PyADTPulse timeout'' s of (t, s1) \<Rightarrow> s1\<lparr>timeout_task := Some t\<rparr>)
      | Some t \<Rightarrow> s)"

definition init_updates_exist :: "'site pulse \<Rightarrow> 'site pulse" where
  "init_updates_exist s =
     (case updates_exist_event s of
        None \<Rightarrow> s\<lparr>updates_exist_event := Some False\<rparr>
      | Some flag \<Rightarrow> s)"

definition start_tasks ::
  "('soup, 'site) world \<Rightarrow> 'site pulse \<Rightarrow> (error + unit) \<times> 'site pulse" where
  "start_tasks w s =
     asyncio_sleep w 0 (init_updates_exist (start_timeout_task (start_sync_task s)))"

text \<open>\<^verbatim>\<open>async_login\<close> (lines 401-455).\<close>

definition async_login ::
  "('soup, 'site) world \<Rightarrow> 'site pulse \<Rightarrow> (error + unit) \<times> 'site pulse" where
  "async_login w s =
     (case login_request w s of
        (Inl e, s1) \<Rightarrow> (Inl e, s1)
      | (Inr resp, s1) \<Rightarrow>
          (case make_soup w resp of
             None \<Rightarrow> (Inr (), s1\<lparr>authenticated := Some False\<rparr>)
           | Some soup \<Rightarrow>
               if find_warn w soup
               then (Inr (), (LOG ERROR ''Invalid ADT Pulse response'' s1)\<lparr>authenticated := Some False\<rparr>)
               else (case time_time w (s1\<lparr>authenticated := Some True\<rparr>) of
                       (t1, s2) \<Rightarrow>
                         (case update_sites w soup (sites s2) of
                            Inl e \<Rightarrow> (Inl e, s2\<lparr>last_timeout_reset := t1\<rparr>)
                          | Inr new_sites \<Rightarrow>
                              (case time_time w (s2\<lparr>last_timeout_reset := t1, sites := new_sites\<rparr>) of
                                 (t2, s3) \<Rightarrow> start_tasks w (s3\<lparr>sync_timestamp := t2\<rparr>))))))"

subsection \<open>The request executor with its forced login\<close>

text \<open>\<^verbatim>\<open>_async_query\<close> (lines 595-679).\<close>

definition async_query ::
  "('soup, 'site) world \<Rightarrow> string \<Rightarrow> string \<Rightarrow> (string \<times> param) list option \<Rightarrow>
   (string \<times> string) list option \<Rightarrow> bool \<Rightarrow> nat \<Rightarrow> 'site pulse \<Rightarrow>
   (error + response option) \<times> 'site pulse" where
  "async_query w uri method extra_params extra_headers force_login timeout s =
     (if force_login \<and> \<not> is_connected s
      then (case async_login w s of
              (Inl e, s1) \<Rightarrow> (Inl e, s1)
            | (Inr u, s1) \<Rightarrow> query_core w uri method extra_params extra_headers timeout s1)
      else query_core w uri method extra_params extra_headers timeout s)"

text \<open>
  The synchronous \<^verbatim>\<open>query\<close> (lines 681-711): the coroutine is run on the session
  thread's loop and its result is returned.
\<close>

definition query ::
  "('soup, 'site) world \<Rightarrow> string \<Rightarrow> string \<Rightarrow> (string \<times> param) list option \<Rightarrow>
   (string \<times> string) list option \<Rightarrow> bool \<Rightarrow> nat \<Rightarrow> 'site pulse \<Rightarrow>
   (error + response option) \<times> 'site pulse" where
  "query w uri method extra_params extra_headers force_login timeout s =
     (if \<not> event_loop s
      then (Inl (RuntimeError ''Attempting to run sync query from async login''), s)
      else async_query w uri method extra_params extra_headers force_login timeout s)"

subsection \<open>Content refresh\<close>

text \<open>\<^verbatim>\<open>_query_orb\<close> (lines 714-719) and \<^verbatim>\<open>async_update\<close> (lines 721-737).\<close>

definition query_orb ::
  "('soup, 'site) world \<Rightarrow> 'site pulse \<Rightarrow> (error + 'soup option) \<times> 'site pulse" where
  "query_orb w s =
     (case async_query w (ADT_ORB_URI w) ''GET'' None None True 1 s of
        (Inl e, s1) \<Rightarrow> (Inl e, s1)
      | (Inr resp, s1) \<Rightarrow> (Inr (make_soup w resp), s1))"

definition async_update ::
  "('soup, 'site) world \<Rightarrow> 'site pulse \<Rightarrow> (error + bool) \<times> 'site pulse" where
  "async_update w s =
     (case query_orb w (LOG DEBUG ''Checking ADT Pulse cloud service for updates'' (emit EvUpdate s)) of
        (Inl e, s1) \<Rightarrow> (Inl e, s1)
      | (Inr None, s1) \<Rightarrow> (Inr False, s1)
      | (Inr (Some soup), s1) \<Rightarrow>
          (case update_sites w soup (sites s1) of
             Inl e \<Rightarrow> (Inl e, s1)
           | Inr new_sites \<Rightarrow> (Inr True, s1\<lparr>sites := new_sites\<rparr>)))"

text \<open>The synchronous \<^verbatim>\<open>update\<close> (lines 739-748).\<close>

definition update :: "('soup, 'site) world \<Rightarrow> 'site pulse \<Rightarrow> (error + bool) \<times> 'site pulse" where
  "update w s =
     (if \<not> event_loop s
      then (Inl (RuntimeError ''Attempting to run sync update from async login''), s)
      else async_update w s)"

subsection \<open>The background tasks\<close>

text \<open>
  How one iteration of a task loop ends: the loop goes on, the task has caught its
  cancellation and returned, or another exception has left the task. A whole task ends
  by cancellation, by leaving its loop, or by such an exception.
\<close>

datatype flow = Continue | Cancelled | Raised error

datatype task_end = TaskCancelled | LoopExit | TaskRaised error

text \<open>
  The handler \<^verbatim>\<open>except asyncio.CancelledError\<close> of both loops: it logs, closes the
  response held in the local variable and returns.
\<close>

definition catch_cancel ::
  "string \<Rightarrow> (error + unit) \<times> response option \<times> 'site pulse \<Rightarrow> flow \<times> response option \<times> 'site pulse" where
  "catch_cancel msg x =
     (case x of
        (Inr u, r, s) \<Rightarrow> (Continue, r, s)
      | (Inl e, r, s) \<Rightarrow>
          if e = CancelledError then (Cancelled, close_response r, LOG DEBUG msg s)
          else (Raised e, r, s))"

text \<open>
  The \<^verbatim>\<open>try\<close> block of \<^verbatim>\<open>_keepalive_task\<close> (lines 324-332); the middle component
  is the local variable \<^verbatim>\<open>response\<close>.
\<close>

definition keepalive_body ::
  "('soup, 'site) world \<Rightarrow> response option \<Rightarrow> 'site pulse \<Rightarrow>
   (error + unit) \<times> response option \<times> 'site pulse" where
  "keepalive_body w response s =
     (case asyncio_sleep w (ADT_TIMEOUT_INTERVAL w) s of
        (Inl e, s1) \<Rightarrow> (Inl e, response, s1)
      | (Inr u, s1) \<Rightarrow>
          (case async_query w (ADT_TIMEOUT_URI w) ''POST'' None None True 1
                  (LOG DEBUG ''Resetting timeout'' s1) of
             (Inl e, s2) \<Rightarrow> (Inl e, response, s2)
           | (Inr r, s2) \<Rightarrow>
               if handle_response w r then (Inr (), close_response r, s2)
               else (Inr (), close_response r, s2)))"

definition keepalive_iter ::
  "('soup, 'site) world \<Rightarrow> response option \<Rightarrow> 'site pulse \<Rightarrow> flow \<times> response option \<times> 'site pulse" where
  "keepalive_iter w response s =
     catch_cancel ''ADT Pulse timeout task cancelled'' (keepalive_body w response s)"

text \<open>
  The loop \<^verbatim>\<open>while self._authenticated.is_set()\<close> (line 322) with a bound on the
  number of loop tests: \<open>None\<close> means that the task is still running after them.
\<close>

fun keepalive_loop ::
  "('soup, 'site) world \<Rightarrow> nat \<Rightarrow> response option \<Rightarrow> 'site pulse \<Rightarrow>
   task_end option \<times> response option \<times> 'site pulse" where
  "keepalive_loop w 0 response s = (None, response, s)"
| "keepalive_loop w (Suc n) response s =
     (case authenticated s of
        None \<Rightarrow> (Some (TaskRaised (OtherError ''AttributeError'')), response, s)
      | Some flag \<Rightarrow>
          if \<not> flag then (Some LoopExit, response, s)
          else (case keepalive_iter w response s of
                  (Continue, r, s1) \<Rightarrow> keepalive_loop w n r s1
                | (Cancelled, r, s1) \<Rightarrow> (Some TaskCancelled, r, s1)
                | (Raised e, r, s1) \<Rightarrow> (Some (TaskRaised e), r, s1)))"

text \<open>\<^verbatim>\<open>_keepalive_task\<close> (lines 315-336).\<close>

definition keepalive_task ::
  "('soup, 'site) world \<Rightarrow> nat \<Rightarrow> 'site pulse \<Rightarrow> task_end option \<times> response option \<times> 'site pulse" where
  "keepalive_task w n s =
     (if authenticated s = None
      then (Some (TaskRaised (RuntimeError ''Keepalive task is runnng without an authenticated event'')),
            None, LOG DEBUG ''creating Pulse keepalive task'' s)
      else keepalive_loop w n None (LOG DEBUG ''creating Pulse keepalive task'' s))"

text \<open>
  A keepalive task that has passed its loop test and sleeps in line 324 goes on from
  there: the rest of the iteration, then the loop. What other tasks did to the object
  while it slept is in the state it wakes up in.
\<close>

definition keepalive_resume ::
  "('soup, 'site) world \<Rightarrow> nat \<Rightarrow> response option \<Rightarrow> 'site pulse \<Rightarrow>
   task_end option \<times> response option \<times> 'site pulse" where
  "keepalive_resume w n response s =
     (case keepalive_iter w response s of
        (Continue, r, s1) \<Rightarrow> keepalive_loop w n r s1
      | (Cancelled, r, s1) \<Rightarrow> (Some TaskCancelled, r, s1)
      | (Raised e, r, s1) \<Rightarrow> (Some (TaskRaised e), r, s1))"

text \<open>Python's \<^verbatim>\<open>int()\<close> of a float truncates towards zero.\<close>

definition py_int :: "real \<Rightarrow> int" where
  "py_int x = (if 0 \<le> x then \<lfloor>x\<rfloor> else \<lceil>x\<rceil>)"

text \<open>The parameters of the sync check request: \<^verbatim>\<open>{"ts": int(self._sync_timestamp * 1000)}\<close>.\<close>

definition sync_params :: "real \<Rightarrow> (string \<times> param) list option" where
  "sync_params ts = Some [(''ts'', PInt (py_int (ts * 1000)))]"

text \<open>
  Lines 506-537 of \<^verbatim>\<open>_sync_check_task\<close>: what an iteration does with the response
  of its poll.
\<close>

definition sync_check_token ::
  "('soup, 'site) world \<Rightarrow> response \<Rightarrow> 'site pulse \<Rightarrow>
   (error + unit) \<times> response option \<times> 'site pulse" where
  "sync_check_token w r s =
     (if \<not> handle_response w (Some r) then (Inr (), close_response (Some r), s)
      else if \<not> token_match (resp_text r) then
        (case async_login w
                (LOG DEBUG ''Received text from ADT Pulse site''
                   (LOG WARNING ''Unexpected sync check format, forcing re-auth'' s)) of
           (Inl e, s1) \<Rightarrow> (Inl e, close_response (Some r), s1)
         | (Inr u, s1) \<Rightarrow> (Inr (), close_response (Some r), s1))
      else if endswith (resp_text r) ''-0-0'' then
        (case time_time w (LOG DEBUG ''Sync token indicates updates may exist, requerying'' s) of
           (t, s1) \<Rightarrow>
             (case updates_exist_event s1 of
                None \<Rightarrow>
                  (Inl (OtherError ''AttributeError''), close_response (Some r), s1\<lparr>sync_timestamp := t\<rparr>)
              | Some flag \<Rightarrow>
                  (case async_update w (s1\<lparr>sync_timestamp := t, updates_exist_event := Some True\<rparr>) of
                     (Inl e, s2) \<Rightarrow> (Inl e, close_response (Some r), s2)
                   | (Inr ok, s2) \<Rightarrow>
                       (Inr (), close_response (Some r),
                        if ok then s2 else LOG DEBUG ''Pulse data update from sync task failed'' s2))))
      else
        (case time_time w (LOG DEBUG ''Sync token indicates no remote updates to process'' s) of
           (t, s1) \<Rightarrow> (Inr (), close_response (Some r), s1\<lparr>sync_timestamp := t\<rparr>)))"

text \<open>The \<^verbatim>\<open>try\<close> block of \<^verbatim>\<open>_sync_check_task\<close> (lines 497-537).\<close>

definition sync_check_body ::
  "('soup, 'site) world \<Rightarrow> response option \<Rightarrow> 'site pulse \<Rightarrow>
   (error + unit) \<times> response option \<times> 'site pulse" where
  "sync_check_body w response s =
     (case asyncio_sleep w (poll_interval s) s of
        (Inl e, s1) \<Rightarrow> (Inl e, response, s1)
      | (Inr u, s1) \<Rightarrow>
          (case async_query w (ADT_SYNC_CHECK_URI w) ''GET''
                  (sync_params (sync_timestamp s1)) None True 1 s1 of
             (Inl e, s2) \<Rightarrow> (Inl e, response, s2)
           | (Inr None, s2) \<Rightarrow> (Inr (), None, s2)
           | (Inr (Some r), s2) \<Rightarrow> sync_check_token w r s2))"

definition sync_check_iter ::
  "('soup, 'site) world \<Rightarrow> response option \<Rightarrow> 'site pulse \<Rightarrow> flow \<times> response option \<times> 'site pulse" where
  "sync_check_iter w response s =
     catch_cancel ''ADT Pulse sync check task cancelled'' (sync_check_body w response s)"

text \<open>The loop \<^verbatim>\<open>while True\<close> (line 495), with a bound on the number of iterations.\<close>

fun sync_check_loop ::
  "('soup, 'site) world \<Rightarrow> nat \<Rightarrow> response option \<Rightarrow> 'site pulse \<Rightarrow>
   task_end option \<times> response option \<times> 'site pulse" where
  "sync_check_loop w 0 response s = (None, response, s)"
| "sync_check_loop w (Suc n) response s =
     (case sync_check_iter w response s of
        (Continue, r, s1) \<Rightarrow> sync_check_loop w n r s1
      | (Cancelled, r, s1) \<Rightarrow> (Some TaskCancelled, r, s1)
      | (Raised e, r, s1) \<Rightarrow> (Some (TaskRaised e), r, s1))"

text \<open>\<^verbatim>\<open>_sync_check_task\<close> (lines 488-541).\<close>

definition sync_check_task ::
  "('soup, 'site) world \<Rightarrow> nat \<Rightarrow> 'site pulse \<Rightarrow> task_end option \<times> response option \<times> 'site pulse" where
  "sync_check_task w n s =
     (if updates_exist_event s = None
      then (Some (TaskRaised (RuntimeError ''Sync check task started without update event initialized'')),
            None, LOG DEBUG ''creating Pulse sync check task'' s)
      else sync_check_loop w n None (LOG DEBUG ''creating Pulse sync check task'' s))"

subsection \<open>Logout\<close>

text \<open>
  Lines 460-465 and 466-471 of \<^verbatim>\<open>async_logout\<close>: \<^verbatim>\<open>cancel()\<close> inside a
  \<^verbatim>\<open>try\<close> whose handler for \<^verbatim>\<open>CancelledError\<close> logs and awaits the task.
\<close>

definition cancel_and_await ::
  "string \<Rightarrow> nat option \<Rightarrow> 'site pulse \<Rightarrow> (error + unit) \<times> 'site pulse" where
  "cancel_and_await msg task s =
     (case task of
        None \<Rightarrow> (Inr (), s)
      | Some t \<Rightarrow>
          (case task_cancel t s of
             (Inr b, s1) \<Rightarrow> (Inr (), s1)
           | (Inl e, s1) \<Rightarrow>
               if e = CancelledError then (Inr (), await_task t (LOG DEBUG msg s1))
               else (Inl e, s1)))"

text \<open>Lines 474-476: the session is closed if it is there and open.\<close>

definition close_session :: "'site pulse \<Rightarrow> 'site pulse" where
  "close_session s =
     (case session s of
        None \<Rightarrow> s
      | Some c \<Rightarrow>
          if \<not> session_closed c
          then emit EvSessionClose (s\<lparr>session := Some (c\<lparr>session_closed := True\<rparr>)\<rparr>)
          else s)"

text \<open>\<^verbatim>\<open>async_logout\<close> (lines 457-479).\<close>

definition async_logout ::
  "('soup, 'site) world \<Rightarrow> 'site pulse \<Rightarrow> (error + unit) \<times> 'site pulse" where
  "async_logout w s =
     (case cancel_and_await ''Pulse timeout task successfully cancelled'' (timeout_task s)
             (LOG INFO ''Logging out of ADT Pulse'' s) of
        (Inl e, s1) \<Rightarrow> (Inl e, s1)
      | (Inr u, s1) \<Rightarrow>
          (case cancel_and_await ''Pulse sync check task successfully cancelled'' (sync_task s1) s1 of
             (Inl e, s2) \<Rightarrow> (Inl e, s2)
           | (Inr u, s2) \<Rightarrow>
               (case async_query w (ADT_LOGOUT_URI w) ''GET'' None None True 10
                       (s2\<lparr>timeout_task := None, sync_task := None\<rparr>) of
                  (Inl e, s3) \<Rightarrow> (Inl e, s3)
                | (Inr resp, s3) \<Rightarrow>
                    (case time_time w (close_session s3) of
                       (t, s4) \<Rightarrow>
                         (Inr (),
                          case authenticated s4 of
                            None \<Rightarrow> s4\<lparr>last_timeout_reset := t\<rparr>
                          | Some flag \<Rightarrow>
                              s4\<lparr>last_timeout_reset := t, authenticated := Some False\<rparr>)))))"

subsection \<open>Vocabulary of the properties\<close>

definition creds :: "'site pulse \<Rightarrow> string \<times> string \<times> string" where
  "creds s = (username s, password s, fingerprint s)"

text \<open>The levels of the log calls in a trace, in order.\<close>

fun log_levels :: "event list \<Rightarrow> log_level list" where
  "log_levels [] = []"
| "log_levels (EvLog lvl msg # es) = lvl # log_levels es"
| "log_levels (e # es) = log_levels es"

text \<open>The requests in a trace, in order.\<close>

fun requests :: "event list \<Rightarrow> request list" where
  "requests [] = []"
| "requests (EvRequest rq # es) = rq # requests es"
| "requests (e # es) = requests es"

text \<open>
  \<open>reaches w s s'\<close>: the object gets from state \<open>s\<close> to state \<open>s'\<close> by any number of
  the operations of the class, each with any arguments and any outcome.
\<close>

inductive reaches :: "('soup, 'site) world \<Rightarrow> 'site pulse \<Rightarrow> 'site pulse \<Rightarrow> bool" for w where
  reaches_refl: "reaches w s s"
| reaches_login: "reaches w s s1 \<Longrightarrow> async_login w s1 = (r, s2) \<Longrightarrow> reaches w s s2"
| reaches_logout: "reaches w s s1 \<Longrightarrow> async_logout w s1 = (r, s2) \<Longrightarrow> reaches w s s2"
| reaches_async_query:
    "reaches w s s1 \<Longrightarrow> async_query w uri m p h force t s1 = (rq, s2) \<Longrightarrow> reaches w s s2"
| reaches_query: "reaches w s s1 \<Longrightarrow> query w uri m p h force t s1 = (rq, s2) \<Longrightarrow> reaches w s s2"
| reaches_async_update: "reaches w s s1 \<Longrightarrow> async_update w s1 = (ru, s2) \<Longrightarrow> reaches w s s2"
| reaches_update: "reaches w s s1 \<Longrightarrow> update w s1 = (ru, s2) \<Longrightarrow> reaches w s s2"
| reaches_version: "reaches w s s1 \<Longrightarrow> async_fetch_version w s1 = (r, s2) \<Longrightarrow> reaches w s s2"
| reaches_keepalive:
    "reaches w s s1 \<Longrightarrow> keepalive_iter w resp s1 = (fl, resp', s2) \<Longrightarrow> reaches w s s2"
| reaches_sync_check:
    "reaches w s s1 \<Longrightarrow> sync_check_iter w resp s1 = (fl, resp', s2) \<Longrightarrow> reaches w s s2"
| reaches_updates_exist: "reaches w s s1 \<Longrightarrow> updates_exist s1 = (b, s2) \<Longrightarrow> reaches w s s2"
| reaches_wait: "reaches w s s1 \<Longrightarrow> wait_for_update s1 = Inr (Resumed s2) \<Longrightarrow> reaches w s s2"
| reaches_poll_interval: "reaches w s s1 \<Longrightarrow> reaches w s (set_poll_interval i s1)"
| reaches_service_host: "reaches w s s1 \<Longrightarrow> reaches w s (set_service_host w host s1)"

text \<open>
  The HTTP session as the requests see it: \<open>None\<close> when there is none, else whether it
  has been closed.
\<close>

definition session_state :: "'site pulse \<Rightarrow> bool option" where
  "session_state s = map_option session_closed (session s)"

text \<open>\<open>read_since w n t\<close>: \<open>t\<close> is a reading of the clock at interaction \<open>n\<close> or later.\<close>

definition read_since :: "('soup, 'site) world \<Rightarrow> nat \<Rightarrow> real \<Rightarrow> bool" where
  "read_since w n t = (\<exists>k. n \<le> k \<and> t = wall_clock w k)"

text \<open>
  \<open>cancels w\<close>: somewhere the world delivers a cancellation, in a sleep, in an HTTP call
  or in the content layer.
\<close>

definition cancels :: "('soup, 'site) world \<Rightarrow> bool" where
  "cancels w =
     ((\<exists>k. sleep_cancelled w k) \<or> (\<exists>k rq. http w k rq = Interrupted CancelledError)
      \<or> (\<exists>soup st. update_sites w soup st = Inl CancelledError))"

text \<open>The response held in a task's local variable is closed, if there is one.\<close>

definition released :: "response option \<Rightarrow> bool" where
  "released r = (case r of None \<Rightarrow> True | Some x \<Rightarrow> resp_closed x)"

subsection \<open>An example world\<close>

text \<open>
  A server that recognises the three kinds of request by their parameters: the login
  form is answered with the page \<open>''home''\<close> when \<open>accepts n\<close> holds at that interaction
  and with the page \<open>''warn''\<close> otherwise, the sync check with \<open>token\<close>, everything else
  with the page \<open>''page''\<close>; the status is always 200.
\<close>

definition demo_server :: "(nat \<Rightarrow> bool) \<Rightarrow> string \<Rightarrow> nat \<Rightarrow> request \<Rightarrow> http_outcome" where
  "demo_server accepts token n rq =
     (case req_params rq of
        None \<Rightarrow> Responded 200 ''page'' (req_url rq)
      | Some ps \<Rightarrow>
          if map fst ps = [''ts''] then Responded 200 token (req_url rq)
          else Responded 200 (if accepts n then ''home'' else ''warn'') (req_url rq))"

text \<open>A server that answers every \<^verbatim>\<open>POST\<close> with status 404 and everything else with 503.\<close>

definition failing_server :: "nat \<Rightarrow> request \<Rightarrow> http_outcome" where
  "failing_server n rq =
     (if req_method rq = ''POST'' then Responded 404 ''not found'' (req_url rq)
      else Responded 503 ''unavailable'' (req_url rq))"

text \<open>
  The example world: a page is its body, the page \<open>''warn''\<close> holds the error marker,
  the content layer knows one site, the clock shows the number of the interaction, and
  no sleep is ever cancelled.
\<close>

definition demo_world :: "(nat \<Rightarrow> request \<Rightarrow> http_outcome) \<Rightarrow> (string, string) world" where
  "demo_world net =
     \<lparr>ADT_DEFAULT_HTTP_HEADERS = [''Accept'' \<mapsto> ''text/html''],
      ADT_DEFAULT_ACCEPT = ''text/html'',
      ADT_DEFAULT_VERSION = ''16'',
      ADT_DEVICE_URI = ''/device'',
      ADT_HTTP_REFERER_URIS = [''/signin'', ''/device'', ''/summary'', ''/system''],
      ADT_LOGIN_URI = ''/signin'',
      ADT_LOGOUT_URI = ''/signout'',
      ADT_ORB_URI = ''/orb'',
      ADT_SYNC_CHECK_URI = ''/sync'',
      ADT_SYSTEM_URI = ''/system'',
      ADT_TIMEOUT_INTERVAL = 300,
      ADT_TIMEOUT_URI = ''/keepalive'',
      API_PREFIX = ''/myhome/'',
      handle_response = (\<lambda>r. case r of None \<Rightarrow> False | Some x \<Rightarrow> resp_status x < 400),
      make_soup = (\<lambda>r. case r of None \<Rightarrow> None | Some x \<Rightarrow> Some (resp_text x)),
      find_warn = (\<lambda>soup. soup = ''warn''),
      update_sites = (\<lambda>soup st. Inr (if st = [] then [''home''] else st)),
      http = net,
      wall_clock = (\<lambda>n. real n),
      sleep_cancelled = (\<lambda>n. False)\<rparr>"

text \<open>The object that \<open>pulse_new\<close> builds in the example world for a well-formed login.\<close>

definition demo_client :: "string pulse" where
  "demo_client =
     \<lparr>session = None, username = ''a@b.co'', password = ''pw'', fingerprint = ''fp'',
      user_agent = ''agent'', api_version = ''16'', sync_task = None, timeout_task = None,
      authenticated = None, updates_exist_event = None, event_loop = False,
      session_thread = False, last_timeout_reset = 0, sync_timestamp = 0, sites = [],
      api_host = ''https://h'', poll_interval = 2, step = 1, next_task = 0, trace = []\<rparr>"

definition reject_world :: "(string, string) world" where
  "reject_world = demo_world (demo_server (\<lambda>n. False) ''garbage'')"

definition settled_world :: "(string, string) world" where
  "settled_world = demo_world (demo_server (\<lambda>n. True) ''7-0-0'')"

definition busy_world :: "(string, string) world" where
  "busy_world = demo_world (demo_server (\<lambda>n. True) ''7-1-2'')"

definition outage_world :: "(string, string) world" where
  "outage_world = demo_world (demo_server (\<lambda>n. n < 9) ''garbage'')"

definition blip_world :: "(string, string) world" where
  "blip_world = demo_world (demo_server (\<lambda>n. n \<noteq> 9) ''garbage'')"

definition failing_world :: "(string, string) world" where
  "failing_world = demo_world failing_server"

text \<open>The example object after a login that the server has rejected.\<close>

definition rejected_client :: "string pulse" where
  "rejected_client = snd (async_login reject_world demo_client)"

text \<open>The example object when it is built around an HTTP session of the caller.\<close>

definition session_client :: "string pulse" where
  "session_client =
     demo_client\<lparr>session := Some \<lparr>headers = [''Accept'' \<mapsto> ''text/html''], session_closed = False\<rparr>\<rparr>"

text \<open>The example object after a login that the server has accepted, in four worlds.\<close>

definition settled_client :: "string pulse" where
  "settled_client = snd (async_login settled_world demo_client)"

definition busy_client :: "string pulse" where
  "busy_client = snd (async_login busy_world demo_client)"

definition outage_client :: "string pulse" where
  "outage_client = snd (async_login outage_world demo_client)"

definition blip_client :: "string pulse" where
  "blip_client = snd (async_login blip_world demo_client)"

text \<open>
  The object in the world with the outage after the first iteration of the sync check
  task (the token is not one, and the login that this forces is rejected).
\<close>

definition outage_after_tick :: "string pulse" where
  "outage_after_tick = snd (snd (sync_check_iter outage_world None outage_client))"

text \<open>
  The shape of the example object after its first, accepted login (\<open>online_client\<close>) and
  after a later login that was rejected (\<open>offline_client\<close>), for any headers of the HTTP
  session and any trace.
\<close>

definition online_client :: "(string \<rightharpoonup> string) \<Rightarrow> event list \<Rightarrow> string pulse" where
  "online_client hs tr =
     \<lparr>session = Some \<lparr>headers = hs, session_closed = False\<rparr>,
      username = ''a@b.co'', password = ''pw'', fingerprint = ''fp'',
      user_agent = ''agent'', api_version = ''16'', sync_task = Some 0, timeout_task = Some 1,
      authenticated = Some True, updates_exist_event = Some False, event_loop = False,
      session_thread = False, last_timeout_reset = 3, sync_timestamp = 4, sites = [''home''],
      api_host = ''https://h'', poll_interval = 2, step = 6, next_task = 2, trace = tr\<rparr>"

definition offline_client :: "(string \<rightharpoonup> string) \<Rightarrow> event list \<Rightarrow> string pulse" where
  "offline_client hs tr = (online_client hs tr)\<lparr>authenticated := Some False, step := 10\<rparr>"

text \<open>
  A world that behaves like \<open>settled_world\<close> up to the first login and cancels every
  sleep after it.
\<close>

definition cancel_world :: "(string, string) world" where
  "cancel_world = settled_world\<lparr>sleep_cancelled := (\<lambda>n. 6 \<le> n)\<rparr>"

text \<open>
  The object in the world with the short rejection after the first iteration of the sync
  check task.
\<close>

definition blip_after_tick :: "string pulse" where
  "blip_after_tick = snd (snd (sync_check_iter blip_world None blip_client))"

section \<open>Properties\<close>

subsection \<open>The example object\<close>

lemmas char_class_defs = is_digit_def is_upper_def is_lower_def is_word_char_def
  local_char_def domain_char_def tld_char_def

lemma demo_email: "email_match ''a@b.co''"
  by (simp add: email_match_def char_class_defs)

lemma demo_client_new:
  "pulse_new (demo_world net) (Some ''a@b.co'') (Some ''pw'') (Some ''fp'') ''https://h'' ''agent'' None 2
     = Inr demo_client"
  by (simp add: pulse_new_def init_login_info_def demo_email demo_world_def demo_client_def)

lemma emit_proj [simp]:
  "session (emit ev s) = session s"
  "username (emit ev s) = username s"
  "password (emit ev s) = password s"
  "fingerprint (emit ev s) = fingerprint s"
  "user_agent (emit ev s) = user_agent s"
  "api_version (emit ev s) = api_version s"
  "sync_task (emit ev s) = sync_task s"
  "timeout_task (emit ev s) = timeout_task s"
  "authenticated (emit ev s) = authenticated s"
  "updates_exist_event (emit ev s) = updates_exist_event s"
  "event_loop (emit ev s) = event_loop s"
  "session_thread (emit ev s) = session_thread s"
  "last_timeout_reset (emit ev s) = last_timeout_reset s"
  "sync_timestamp (emit ev s) = sync_timestamp s"
  "sites (emit ev s) = sites s"
  "api_host (emit ev s) = api_host s"
  "poll_interval (emit ev s) = poll_interval s"
  "step (emit ev s) = step s"
  "next_task (emit ev s) = next_task s"
  "trace (emit ev s) = trace s @ [ev]"
  by (simp_all add: emit_def)

lemma LOG_proj [simp]:
  "session (LOG lvl msg s) = session s"
  "username (LOG lvl msg s) = username s"
  "password (LOG lvl msg s) = password s"
  "fingerprint (LOG lvl msg s) = fingerprint s"
  "user_agent (LOG lvl msg s) = user_agent s"
  "api_version (LOG lvl msg s) = api_version s"
  "sync_task (LOG lvl msg s) = sync_task s"
  "timeout_task (LOG lvl msg s) = timeout_task s"
  "authenticated (LOG lvl msg s) = authenticated s"
  "updates_exist_event (LOG lvl msg s) = updates_exist_event s"
  "event_loop (LOG lvl msg s) = event_loop s"
  "session_thread (LOG lvl msg s) = session_thread s"
  "last_timeout_reset (LOG lvl msg s) = last_timeout_reset s"
  "sync_timestamp (LOG lvl msg s) = sync_timestamp s"
  "sites (LOG lvl msg s) = sites s"
  "api_host (LOG lvl msg s) = api_host s"
  "poll_interval (LOG lvl msg s) = poll_interval s"
  "step (LOG lvl msg s) = step s"
  "next_task (LOG lvl msg s) = next_task s"
  "trace (LOG lvl msg s) = trace s @ [EvLog lvl msg]"
  by (simp_all add: LOG_def)

lemma advance_proj [simp]:
  "session (advance s) = session s"
  "username (advance s) = username s"
  "password (advance s) = password s"
  "fingerprint (advance s) = fingerprint s"
  "user_agent (advance s) = user_agent s"
  "api_version (advance s) = api_version s"
  "sync_task (advance s) = sync_task s"
  "timeout_task (advance s) = timeout_task s"
  "authenticated (advance s) = authenticated s"
  "updates_exist_event (advance s) = updates_exist_event s"
  "event_loop (advance s) = event_loop s"
  "session_thread (advance s) = session_thread s"
  "last_timeout_reset (advance s) = last_timeout_reset s"
  "sync_timestamp (advance s) = sync_timestamp s"
  "sites (advance s) = sites s"
  "api_host (advance s) = api_host s"
  "poll_interval (advance s) = poll_interval s"
  "step (advance s) = Suc (step s)"
  "next_task (advance s) = next_task s"
  "trace (advance s) = trace s"
  by (simp_all add: advance_def)

lemma update_headers_proj [simp]:
  "session (update_headers new s) = map_option (\<lambda>c. c\<lparr>headers := headers c ++ new\<rparr>) (session s)"
  "username (update_headers new s) = username s"
  "password (update_headers new s) = password s"
  "fingerprint (update_headers new s) = fingerprint s"
  "user_agent (update_headers new s) = user_agent s"
  "api_version (update_headers new s) = api_version s"
  "sync_task (update_headers new s) = sync_task s"
  "timeout_task (update_headers new s) = timeout_task s"
  "authenticated (update_headers new s) = authenticated s"
  "updates_exist_event (update_headers new s) = updates_exist_event s"
  "event_loop (update_headers new s) = event_loop s"
  "session_thread (update_headers new s) = session_thread s"
  "last_timeout_reset (update_headers new s) = last_timeout_reset s"
  "sync_timestamp (update_headers new s) = sync_timestamp s"
  "sites (update_headers new s) = sites s"
  "api_host (update_headers new s) = api_host s"
  "poll_interval (update_headers new s) = poll_interval s"
  "step (update_headers new s) = step s"
  "next_task (update_headers new s) = next_task s"
  "trace (update_headers new s) = trace s"
  by (simp_all add: update_headers_def)

lemma query_prepare_proj [simp]:
  "username (query_prepare w uri s) = username s"
  "password (query_prepare w uri s) = password s"
  "fingerprint (query_prepare w uri s) = fingerprint s"
  "user_agent (query_prepare w uri s) = user_agent s"
  "api_version (query_prepare w uri s) = api_version s"
  "sync_task (query_prepare w uri s) = sync_task s"
  "timeout_task (query_prepare w uri s) = timeout_task s"
  "authenticated (query_prepare w uri s) = authenticated s"
  "updates_exist_event (query_prepare w uri s) = updates_exist_event s"
  "event_loop (query_prepare w uri s) = event_loop s"
  "session_thread (query_prepare w uri s) = session_thread s"
  "last_timeout_reset (query_prepare w uri s) = last_timeout_reset s"
  "sync_timestamp (query_prepare w uri s) = sync_timestamp s"
  "sites (query_prepare w uri s) = sites s"
  "api_host (query_prepare w uri s) = api_host s"
  "poll_interval (query_prepare w uri s) = poll_interval s"
  "step (query_prepare w uri s) = step s"
  "next_task (query_prepare w uri s) = next_task s"
  "trace (query_prepare w uri s) = trace s @ [EvLog DEBUG ''Updating HTTP headers'', EvLog DEBUG ''Attempting request'']"
  by (simp_all add: query_prepare_def)

lemma query_referer_proj [simp]:
  "username (query_referer w uri u s) = username s"
  "password (query_referer w uri u s) = password s"
  "fingerprint (query_referer w uri u s) = fingerprint s"
  "user_agent (query_referer w uri u s) = user_agent s"
  "api_version (query_referer w uri u s) = api_version s"
  "sync_task (query_referer w uri u s) = sync_task s"
  "timeout_task (query_referer w uri u s) = timeout_task s"
  "authenticated (query_referer w uri u s) = authenticated s"
  "updates_exist_event (query_referer w uri u s) = updates_exist_event s"
  "event_loop (query_referer w uri u s) = event_loop s"
  "session_thread (query_referer w uri u s) = session_thread s"
  "last_timeout_reset (query_referer w uri u s) = last_timeout_reset s"
  "sync_timestamp (query_referer w uri u s) = sync_timestamp s"
  "sites (query_referer w uri u s) = sites s"
  "api_host (query_referer w uri u s) = api_host s"
  "poll_interval (query_referer w uri u s) = poll_interval s"
  "step (query_referer w uri u s) = step s"
  "next_task (query_referer w uri u s) = next_task s"
  by (simp_all add: query_referer_def)

lemma version_default_proj [simp]:
  "session (version_default w s) = session s"
  "username (version_default w s) = username s"
  "password (version_default w s) = password s"
  "fingerprint (version_default w s) = fingerprint s"
  "user_agent (version_default w s) = user_agent s"
  "api_version (version_default w s) = ADT_DEFAULT_VERSION w"
  "sync_task (version_default w s) = sync_task s"
  "timeout_task (version_default w s) = timeout_task s"
  "authenticated (version_default w s) = authenticated s"
  "updates_exist_event (version_default w s) = updates_exist_event s"
  "event_loop (version_default w s) = event_loop s"
  "session_thread (version_default w s) = session_thread s"
  "last_timeout_reset (version_default w s) = last_timeout_reset s"
  "sync_timestamp (version_default w s) = sync_timestamp s"
  "sites (version_default w s) = sites s"
  "api_host (version_default w s) = api_host s"
  "poll_interval (version_default w s) = poll_interval s"
  "step (version_default w s) = step s"
  "next_task (version_default w s) = next_task s"
  "trace (version_default w s) = trace s @ [EvLog WARNING ''Error occurred during API version fetch, defaulting'']"
  by (simp_all add: version_default_def)

lemma login_begin_proj [simp]:
  "username (login_begin w s) = username s"
  "password (login_begin w s) = password s"
  "fingerprint (login_begin w s) = fingerprint s"
  "user_agent (login_begin w s) = user_agent s"
  "api_version (login_begin w s) = api_version s"
  "sync_task (login_begin w s) = sync_task s"
  "timeout_task (login_begin w s) = timeout_task s"
  "authenticated (login_begin w s) = Some False"
  "updates_exist_event (login_begin w s) = updates_exist_event s"
  "event_loop (login_begin w s) = event_loop s"
  "session_thread (login_begin w s) = session_thread s"
  "last_timeout_reset (login_begin w s) = last_timeout_reset s"
  "sync_timestamp (login_begin w s) = sync_timestamp s"
  "sites (login_begin w s) = sites s"
  "api_host (login_begin w s) = api_host s"
  "poll_interval (login_begin w s) = poll_interval s"
  "step (login_begin w s) = step s"
  "next_task (login_begin w s) = next_task s"
  "trace (login_begin w s) = trace s @ [EvLog DEBUG ''Authenticating to ADT Pulse cloud service'']"
  by (simp_all add: login_begin_def split: option.splits)

lemma start_sync_task_proj [simp]:
  "session (start_sync_task s) = session s"
  "username (start_sync_task s) = username s"
  "password (start_sync_task s) = password s"
  "fingerprint (start_sync_task s) = fingerprint s"
  "user_agent (start_sync_task s) = user_agent s"
  "api_version (start_sync_task s) = api_version s"
  "timeout_task (start_sync_task s) = timeout_task s"
  "authenticated (start_sync_task s) = authenticated s"
  "updates_exist_event (start_sync_task s) = updates_exist_event s"
  "event_loop (start_sync_task s) = event_loop s"
  "session_thread (start_sync_task s) = session_thread s"
  "last_timeout_reset (start_sync_task s) = last_timeout_reset s"
  "sync_timestamp (start_sync_task s) = sync_timestamp s"
  "sites (start_sync_task s) = sites s"
  "api_host (start_sync_task s) = api_host s"
  "poll_interval (start_sync_task s) = poll_interval s"
  "step (start_sync_task s) = step s"
  by (simp_all add: start_sync_task_def create_task_def split: option.splits)

lemma start_timeout_task_proj [simp]:
  "session (start_timeout_task s) = session s"
  "username (start_timeout_task s) = username s"
  "password (start_timeout_task s) = password s"
  "fingerprint (start_timeout_task s) = fingerprint s"
  "user_agent (start_timeout_task s) = user_agent s"
  "api_version (start_timeout_task s) = api_version s"
  "sync_task (start_timeout_task s) = sync_task s"
  "authenticated (start_timeout_task s) = authenticated s"
  "updates_exist_event (start_timeout_task s) = updates_exist_event s"
  "event_loop (start_timeout_task s) = event_loop s"
  "session_thread (start_timeout_task s) = session_thread s"
  "last_timeout_reset (start_timeout_task s) = last_timeout_reset s"
  "sync_timestamp (start_timeout_task s) = sync_timestamp s"
  "sites (start_timeout_task s) = sites s"
  "api_host (start_timeout_task s) = api_host s"
  "poll_interval (start_timeout_task s) = poll_interval s"
  "step (start_timeout_task s) = step s"
  by (simp_all add: start_timeout_task_def create_task_def split: option.splits)

lemma init_updates_exist_proj [simp]:
  "session (init_updates_exist s) = session s"
  "username (init_updates_exist s) = username s"
  "password (init_updates_exist s) = password s"
  "fingerprint (init_updates_exist s) = fingerprint s"
  "user_agent (init_updates_exist s) = user_agent s"
  "api_version (init_updates_exist s) = api_version s"
  "sync_task (init_updates_exist s) = sync_task s"
  "timeout_task (init_updates_exist s) = timeout_task s"
  "authenticated (init_updates_exist s) = authenticated s"
  "event_loop (init_updates_exist s) = event_loop s"
  "session_thread (init_updates_exist s) = session_thread s"
  "last_timeout_reset (init_updates_exist s) = last_timeout_reset s"
  "sync_timestamp (init_updates_exist s) = sync_timestamp s"
  "sites (init_updates_exist s) = sites s"
  "api_host (init_updates_exist s) = api_host s"
  "poll_interval (init_updates_exist s) = poll_interval s"
  "step (init_updates_exist s) = step s"
  "next_task (init_updates_exist s) = next_task s"
  "trace (init_updates_exist s) = trace s"
  by (simp_all add: init_updates_exist_def split: option.splits)

lemma close_session_proj [simp]:
  "username (close_session s) = username s"
  "password (close_session s) = password s"
  "fingerprint (close_session s) = fingerprint s"
  "user_agent (close_session s) = user_agent s"
  "api_version (close_session s) = api_version s"
  "sync_task (close_session s) = sync_task s"
  "timeout_task (close_session s) = timeout_task s"
  "authenticated (close_session s) = authenticated s"
  "updates_exist_event (close_session s) = updates_exist_event s"
  "event_loop (close_session s) = event_loop s"
  "session_thread (close_session s) = session_thread s"
  "last_timeout_reset (close_session s) = last_timeout_reset s"
  "sync_timestamp (close_session s) = sync_timestamp s"
  "sites (close_session s) = sites s"
  "api_host (close_session s) = api_host s"
  "poll_interval (close_session s) = poll_interval s"
  "step (close_session s) = step s"
  "next_task (close_session s) = next_task s"
  by (simp_all add: close_session_def split: option.splits)

lemma creds_update [simp]:
  "creds (session_update g_session s) = creds s"
  "creds (user_agent_update g_user_agent s) = creds s"
  "creds (api_version_update g_api_version s) = creds s"
  "creds (sync_task_update g_sync_task s) = creds s"
  "creds (timeout_task_update g_timeout_task s) = creds s"
  "creds (authenticated_update g_authenticated s) = creds s"
  "creds (updates_exist_event_update g_updates_exist_event s) = creds s"
  "creds (event_loop_update g_event_loop s) = creds s"
  "creds (session_thread_update g_session_thread s) = creds s"
  "creds (last_timeout_reset_update g_last_timeout_reset s) = creds s"
  "creds (sync_timestamp_update g_sync_timestamp s) = creds s"
  "creds (sites_update g_sites s) = creds s"
  "creds (api_host_update g_api_host s) = creds s"
  "creds (poll_interval_update g_poll_interval s) = creds s"
  "creds (step_update g_step s) = creds s"
  "creds (next_task_update g_next_task s) = creds s"
  "creds (trace_update g_trace s) = creds s"
  by (simp_all add: creds_def)

lemma creds_prim [simp]:
  "creds (emit ev s) = creds s"
  "creds (LOG lvl msg s) = creds s"
  "creds (advance s) = creds s"
  "creds (update_headers new s) = creds s"
  "creds (query_prepare w uri s) = creds s"
  "creds (query_referer w uri u s) = creds s"
  "creds (version_default w s) = creds s"
  "creds (login_begin w s) = creds s"
  "creds (start_sync_task s) = creds s"
  "creds (start_timeout_task s) = creds s"
  "creds (init_updates_exist s) = creds s"
  "creds (close_session s) = creds s"
  by (simp_all add: creds_def)

lemma session_state_prim [simp]:
  "session_state (emit ev s) = session_state s"
  "session_state (LOG lvl msg s) = session_state s"
  "session_state (advance s) = session_state s"
  "session_state (update_headers new s) = session_state s"
  "session_state (query_prepare w uri s) = session_state s"
  "session_state (query_referer w uri u s) = session_state s"
  "session_state (version_default w s) = session_state s"
  "session_state (start_sync_task s) = session_state s"
  "session_state (start_timeout_task s) = session_state s"
  "session_state (init_updates_exist s) = session_state s"
  "session_state (login_begin w s) = Some (case session_state s of None \<Rightarrow> False | Some b \<Rightarrow> b)"
  by (simp_all add: session_state_def query_prepare_def query_referer_def login_begin_def
      option.map_comp o_def split: option.splits)

lemma session_state_update [simp]:
  "session_state (user_agent_update g_user_agent s) = session_state s"
  "session_state (api_version_update g_api_version s) = session_state s"
  "session_state (sync_task_update g_sync_task s) = session_state s"
  "session_state (timeout_task_update g_timeout_task s) = session_state s"
  "session_state (authenticated_update g_authenticated s) = session_state s"
  "session_state (updates_exist_event_update g_updates_exist_event s) = session_state s"
  "session_state (event_loop_update g_event_loop s) = session_state s"
  "session_state (session_thread_update g_session_thread s) = session_state s"
  "session_state (last_timeout_reset_update g_last_timeout_reset s) = session_state s"
  "session_state (sync_timestamp_update g_sync_timestamp s) = session_state s"
  "session_state (sites_update g_sites s) = session_state s"
  "session_state (api_host_update g_api_host s) = session_state s"
  "session_state (poll_interval_update g_poll_interval s) = session_state s"
  "session_state (step_update g_step s) = session_state s"
  "session_state (next_task_update g_next_task s) = session_state s"
  "session_state (trace_update g_trace s) = session_state s"
  by (simp_all add: session_state_def)

lemma count_prim [simp]:
  "count_list (trace (query_referer w uri u s)) EvLogin = count_list (trace s) EvLogin"
  "count_list (trace (query_referer w uri u s)) EvUpdate = count_list (trace s) EvUpdate"
  "count_list (trace (start_sync_task s)) EvLogin = count_list (trace s) EvLogin"
  "count_list (trace (start_sync_task s)) EvUpdate = count_list (trace s) EvUpdate"
  "count_list (trace (start_timeout_task s)) EvLogin = count_list (trace s) EvLogin"
  "count_list (trace (start_timeout_task s)) EvUpdate = count_list (trace s) EvUpdate"
  "count_list (trace (query_referer w uri u s)) (EvAwaitTask k) = count_list (trace s) (EvAwaitTask k)"
  "count_list (trace (start_sync_task s)) (EvAwaitTask k) = count_list (trace s) (EvAwaitTask k)"
  "count_list (trace (start_timeout_task s)) (EvAwaitTask k) = count_list (trace s) (EvAwaitTask k)"
  "count_list (trace (close_session s)) (EvAwaitTask k) = count_list (trace s) (EvAwaitTask k)"
  by (simp_all add: query_referer_def start_sync_task_def start_timeout_task_def create_task_def
      close_session_def split: option.splits)

lemma prefix_prim [simp]:
  "prefix (trace s) (trace (query_referer w uri u s))"
  "prefix (trace s) (trace (start_sync_task s))"
  "prefix (trace s) (trace (start_timeout_task s))"
  "prefix (trace s) (trace (close_session s))"
  by (simp_all add: query_referer_def start_sync_task_def start_timeout_task_def create_task_def
      close_session_def split: option.splits)

lemma prefix_step: "prefix xs (trace s) \<Longrightarrow> prefix (trace s) ys \<Longrightarrow> prefix xs ys"
  by (rule prefix_order.trans)

lemma query_core_snd [simp]:
  "creds (snd (query_core w uri m p h t s)) = creds s"
  "authenticated (snd (query_core w uri m p h t s)) = authenticated s"
  "updates_exist_event (snd (query_core w uri m p h t s)) = updates_exist_event s"
  "sync_timestamp (snd (query_core w uri m p h t s)) = sync_timestamp s"
  "sync_task (snd (query_core w uri m p h t s)) = sync_task s"
  "timeout_task (snd (query_core w uri m p h t s)) = timeout_task s"
  "next_task (snd (query_core w uri m p h t s)) = next_task s"
  "session_state (snd (query_core w uri m p h t s)) = session_state s"
  "count_list (trace (snd (query_core w uri m p h t s))) EvLogin = count_list (trace s) EvLogin"
  "count_list (trace (snd (query_core w uri m p h t s))) EvUpdate = count_list (trace s) EvUpdate"
  "count_list (trace (snd (query_core w uri m p h t s))) (EvAwaitTask k) = count_list (trace s) (EvAwaitTask k)"
  by (simp_all add: query_core_def http_call_def
      split: option.splits http_outcome.splits)

lemma query_core_step: "step s \<le> step (snd (query_core w uri m p h t s))"
  by (simp add: query_core_def http_call_def split: option.splits http_outcome.splits)

lemma query_core_prefix: "prefix (trace s) (trace (snd (query_core w uri m p h t s)))"
  by (auto simp: query_core_def http_call_def split: option.splits http_outcome.splits
      intro: prefix_order.trans [OF _ prefix_prim(1)])

lemma fetch_version_snd [simp]:
  "creds (snd (async_fetch_version w s)) = creds s"
  "authenticated (snd (async_fetch_version w s)) = authenticated s"
  "updates_exist_event (snd (async_fetch_version w s)) = updates_exist_event s"
  "sync_timestamp (snd (async_fetch_version w s)) = sync_timestamp s"
  "sync_task (snd (async_fetch_version w s)) = sync_task s"
  "timeout_task (snd (async_fetch_version w s)) = timeout_task s"
  "next_task (snd (async_fetch_version w s)) = next_task s"
  "session_state (snd (async_fetch_version w s)) = session_state s"
  "count_list (trace (snd (async_fetch_version w s))) EvLogin = count_list (trace s) EvLogin"
  "count_list (trace (snd (async_fetch_version w s))) EvUpdate = count_list (trace s) EvUpdate"
  "count_list (trace (snd (async_fetch_version w s))) (EvAwaitTask k) = count_list (trace s) (EvAwaitTask k)"
  by (simp_all add: async_fetch_version_def http_call_def
      split: option.splits http_outcome.splits)

lemma fetch_version_step: "step s \<le> step (snd (async_fetch_version w s))"
  by (simp add: async_fetch_version_def http_call_def split: option.splits http_outcome.splits)

lemma fetch_version_prefix: "prefix (trace s) (trace (snd (async_fetch_version w s)))"
  by (simp add: async_fetch_version_def http_call_def split: option.splits http_outcome.splits)

lemma fetch_version_open:
  "fst (async_fetch_version w s) = Inr u \<Longrightarrow> session_state s \<noteq> Some True"
  by (auto simp: async_fetch_version_def session_state_def split: option.splits if_splits)

lemma login_request_snd [simp]:
  "creds (snd (login_request w s)) = creds s"
  "authenticated (snd (login_request w s)) = Some False"
  "updates_exist_event (snd (login_request w s)) = updates_exist_event s"
  "sync_timestamp (snd (login_request w s)) = sync_timestamp s"
  "sync_task (snd (login_request w s)) = sync_task s"
  "timeout_task (snd (login_request w s)) = timeout_task s"
  "next_task (snd (login_request w s)) = next_task s"
  "count_list (trace (snd (login_request w s))) EvLogin = Suc (count_list (trace s) EvLogin)"
  "count_list (trace (snd (login_request w s))) EvUpdate = count_list (trace s) EvUpdate"
  "count_list (trace (snd (login_request w s))) (EvAwaitTask k) = count_list (trace s) (EvAwaitTask k)"
  by (simp_all add: login_request_def case_prod_beta split: sum.splits)

lemma login_request_step: "step s \<le> step (snd (login_request w s))"
proof -
  have "step s \<le> step (snd (async_fetch_version w (login_begin w (emit EvLogin s))))"
    using fetch_version_step [of "login_begin w (emit EvLogin s)" w] by simp
  then show ?thesis
    using query_core_step [of "snd (async_fetch_version w (login_begin w (emit EvLogin s)))" w]
    by (auto simp: login_request_def case_prod_beta split: sum.splits intro: order_trans)
qed

lemma login_request_prefix: "prefix (trace s @ [EvLogin]) (trace (snd (login_request w s)))"
proof -
  have "prefix (trace s @ [EvLogin]) (trace (snd (async_fetch_version w (login_begin w (emit EvLogin s)))))"
    using fetch_version_prefix [of "login_begin w (emit EvLogin s)" w] by (auto simp: prefix_def)
  then show ?thesis
    using query_core_prefix [of "snd (async_fetch_version w (login_begin w (emit EvLogin s)))" w]
    by (auto simp: login_request_def case_prod_beta split: sum.splits intro: prefix_order.trans)
qed

lemma login_request_open:
  "fst (login_request w s) = Inr r \<Longrightarrow> session_state (snd (login_request w s)) = Some False"
  using fetch_version_open [of w "login_begin w (emit EvLogin s)"]
  by (auto simp: login_request_def case_prod_beta split: sum.splits option.splits)

lemma start_tasks_snd [simp]:
  "creds (snd (start_tasks w s)) = creds s"
  "authenticated (snd (start_tasks w s)) = authenticated s"
  "session_state (snd (start_tasks w s)) = session_state s"
  "sync_timestamp (snd (start_tasks w s)) = sync_timestamp s"
  "updates_exist_event (snd (start_tasks w s)) = Some (case updates_exist_event s of None \<Rightarrow> False | Some x \<Rightarrow> x)"
  "sync_task (snd (start_tasks w s)) \<noteq> None"
  "timeout_task (snd (start_tasks w s)) \<noteq> None"
  "step (snd (start_tasks w s)) = Suc (step s)"
  "count_list (trace (snd (start_tasks w s))) EvLogin = count_list (trace s) EvLogin"
  "count_list (trace (snd (start_tasks w s))) EvUpdate = count_list (trace s) EvUpdate"
  "count_list (trace (snd (start_tasks w s))) (EvAwaitTask k) = count_list (trace s) (EvAwaitTask k)"
  by (simp_all add: start_tasks_def asyncio_sleep_def init_updates_exist_def
      start_timeout_task_def start_sync_task_def create_task_def
      split: option.splits)

lemma start_tasks_prefix: "prefix (trace s) (trace (snd (start_tasks w s)))"
proof -
  have "prefix (trace s) (trace (start_timeout_task (start_sync_task s)))"
    by (rule prefix_order.trans [OF prefix_prim(2) prefix_prim(3)])
  then show ?thesis
    by (simp add: start_tasks_def asyncio_sleep_def)
qed

lemma async_login_snd [simp]:
  "creds (snd (async_login w s)) = creds s"
  "count_list (trace (snd (async_login w s))) EvLogin = Suc (count_list (trace s) EvLogin)"
  "count_list (trace (snd (async_login w s))) EvUpdate = count_list (trace s) EvUpdate"
  "count_list (trace (snd (async_login w s))) (EvAwaitTask k) = count_list (trace s) (EvAwaitTask k)"
  by (simp_all add: async_login_def time_time_def case_prod_beta
      split: sum.splits option.splits)

lemma async_login_updates_exist:
  "updates_exist_event s \<noteq> None \<Longrightarrow>
     updates_exist_event (snd (async_login w s)) = updates_exist_event s"
  by (auto simp: async_login_def time_time_def case_prod_beta
      split: sum.splits option.splits)

lemma async_login_step: "step s \<le> step (snd (async_login w s))"
  using login_request_step [of s w]
  by (auto simp: async_login_def time_time_def case_prod_beta
      split: sum.splits option.splits)

lemma async_login_prefix: "prefix (trace s @ [EvLogin]) (trace (snd (async_login w s)))"
  using login_request_prefix [of s w]
  by (auto simp: async_login_def time_time_def case_prod_beta
      split: sum.splits option.splits
      intro: prefix_order.trans [OF _ start_tasks_prefix])

lemma async_login_open:
  "fst (async_login w s) = Inr u \<Longrightarrow> session_state (snd (async_login w s)) = Some False"
  using login_request_open [of w s]
  by (auto simp: async_login_def time_time_def case_prod_beta
      split: sum.splits option.splits if_splits)

lemma read_since_clock [simp]: "n \<le> k \<Longrightarrow> read_since w n (wall_clock w k)"
  by (auto simp: read_since_def)

lemma read_since_mono:
  assumes "read_since w n t" and "m \<le> n"
  shows "read_since w m t"
proof -
  from assms(1) obtain k where k: "n \<le> k" "t = wall_clock w k"
    by (auto simp: read_since_def)
  from k(1) assms(2) have "m \<le> k" by simp
  with k(2) show ?thesis by simp
qed

lemma async_login_timestamp:
  "sync_timestamp (snd (async_login w s)) = sync_timestamp s
   \<or> read_since w (step s) (sync_timestamp (snd (async_login w s)))"
  using login_request_step [of s w]
  by (auto simp: async_login_def time_time_def case_prod_beta
      split: sum.splits option.splits)

lemma async_query_snd [simp]:
  "creds (snd (async_query w uri m p h force t s)) = creds s"
  "count_list (trace (snd (async_query w uri m p h force t s))) EvUpdate = count_list (trace s) EvUpdate"
  "count_list (trace (snd (async_query w uri m p h force t s))) (EvAwaitTask k) = count_list (trace s) (EvAwaitTask k)"
  "count_list (trace (snd (async_query w uri m p h force t s))) EvLogin =
     count_list (trace s) EvLogin + (if force \<and> \<not> is_connected s then 1 else 0)"
  by (simp_all add: async_query_def case_prod_beta split: sum.splits)

lemma async_query_updates_exist:
  "updates_exist_event s \<noteq> None \<Longrightarrow>
     updates_exist_event (snd (async_query w uri m p h force t s)) = updates_exist_event s"
  by (simp add: async_query_def case_prod_beta async_login_updates_exist split: sum.splits)

lemma async_query_step: "step s \<le> step (snd (async_query w uri m p h force t s))"
  using async_login_step [of s w] query_core_step [of s w uri m p h t]
    query_core_step [of "snd (async_login w s)" w uri m p h t]
  by (auto simp: async_query_def case_prod_beta split: sum.splits)

lemma async_query_timestamp:
  "sync_timestamp (snd (async_query w uri m p h force t s)) = sync_timestamp s
   \<or> read_since w (step s) (sync_timestamp (snd (async_query w uri m p h force t s)))"
  using async_login_timestamp [of w s]
  by (auto simp: async_query_def case_prod_beta split: sum.splits)


lemma async_query_connected:
  "is_connected s \<Longrightarrow>
     async_query w uri m p h force t s = query_core w uri m p h t s"
  by (simp add: async_query_def)

lemma query_snd [simp]: "creds (snd (query w uri m p h force t s)) = creds s"
  by (simp add: query_def)

lemma async_update_snd [simp]:
  "creds (snd (async_update w s)) = creds s"
  "count_list (trace (snd (async_update w s))) EvUpdate = Suc (count_list (trace s) EvUpdate)"
  by (simp_all add: async_update_def query_orb_def case_prod_beta split: sum.splits option.splits)

lemma async_update_updates_exist:
  "updates_exist_event s \<noteq> None \<Longrightarrow>
     updates_exist_event (snd (async_update w s)) = updates_exist_event s"
  by (simp add: async_update_def query_orb_def case_prod_beta async_query_updates_exist
      split: sum.splits option.splits)

lemma async_update_timestamp:
  "sync_timestamp (snd (async_update w s)) = sync_timestamp s
   \<or> read_since w (step s) (sync_timestamp (snd (async_update w s)))"
  using async_query_timestamp [of w "ADT_ORB_URI w" "''GET''" None None True 1
      "LOG DEBUG ''Checking ADT Pulse cloud service for updates'' (emit EvUpdate s)"]
  by (auto simp: async_update_def query_orb_def case_prod_beta split: sum.splits option.splits)

lemma update_snd [simp]: "creds (snd (update w s)) = creds s"
  by (simp add: update_def)

lemma catch_cancel_snd [simp]:
  "creds (snd (snd (catch_cancel msg x))) = creds (snd (snd x))"
  "updates_exist_event (snd (snd (catch_cancel msg x))) = updates_exist_event (snd (snd x))"
  "sync_timestamp (snd (snd (catch_cancel msg x))) = sync_timestamp (snd (snd x))"
  "authenticated (snd (snd (catch_cancel msg x))) = authenticated (snd (snd x))"
  "count_list (trace (snd (snd (catch_cancel msg x)))) EvLogin = count_list (trace (snd (snd x))) EvLogin"
  "count_list (trace (snd (snd (catch_cancel msg x)))) EvUpdate = count_list (trace (snd (snd x))) EvUpdate"
  by (simp_all add: catch_cancel_def case_prod_beta split: sum.splits)

lemma catch_cancel_fst:
  "fst (catch_cancel msg x) =
     (case fst x of Inr u \<Rightarrow> Continue | Inl e \<Rightarrow> if e = CancelledError then Cancelled else Raised e)"
  by (simp add: catch_cancel_def case_prod_beta split: sum.splits)

lemma keepalive_snd [simp]:
  "creds (snd (snd (keepalive_body w response s))) = creds s"
  "creds (snd (snd (keepalive_iter w response s))) = creds s"
  by (simp_all add: keepalive_iter_def keepalive_body_def asyncio_sleep_def case_prod_beta
      split: sum.splits)

lemma sync_check_token_snd [simp]:
  "creds (snd (snd (sync_check_token w r s))) = creds s"
  by (simp add: sync_check_token_def time_time_def case_prod_beta split: sum.splits option.splits)

lemma sync_check_snd [simp]:
  "creds (snd (snd (sync_check_body w response s))) = creds s"
  "creds (snd (snd (sync_check_iter w response s))) = creds s"
  by (simp_all add: sync_check_iter_def sync_check_body_def asyncio_sleep_def case_prod_beta
      split: sum.splits option.splits)

lemma cancel_and_await_snd [simp]:
  "creds (snd (cancel_and_await msg task s)) = creds s"
  "fst (cancel_and_await msg task s) = Inr ()"
  "timeout_task (snd (cancel_and_await msg task s)) = timeout_task s"
  "sync_task (snd (cancel_and_await msg task s)) = sync_task s"
  "count_list (trace (snd (cancel_and_await msg task s))) (EvAwaitTask k) = count_list (trace s) (EvAwaitTask k)"
  by (simp_all add: cancel_and_await_def task_cancel_def split: option.splits)

lemma async_logout_snd [simp]: "creds (snd (async_logout w s)) = creds s"
  by (simp add: async_logout_def time_time_def case_prod_beta split: sum.splits option.splits)

lemma small_ops_creds [simp]:
  "creds (snd (updates_exist s)) = creds s"
  "wait_for_update s = Inr (Resumed s') \<Longrightarrow> creds s' = creds s"
  "creds (set_poll_interval i s) = creds s"
  "creds (set_service_host w host s) = creds s"
  by (auto simp: updates_exist_def wait_for_update_def set_poll_interval_def set_service_host_def
      split: option.splits if_splits)

lemma reaches_creds: "reaches w s s' \<Longrightarrow> creds s' = creds s"
proof (induction rule: reaches.induct)
  case (reaches_refl s)
  show ?case by simp
next
  case (reaches_login s s1 r s2)
  then show ?case using async_login_snd(1) [of w s1] by simp
next
  case (reaches_logout s s1 r s2)
  then show ?case using async_logout_snd [of w s1] by simp
next
  case (reaches_async_query s s1 uri m p h force t rq s2)
  then show ?case using async_query_snd(1) [of w uri m p h force t s1] by simp
next
  case (reaches_query s s1 uri m p h force t rq s2)
  then show ?case using query_snd [of w uri m p h force t s1] by simp
next
  case (reaches_async_update s s1 ru s2)
  then show ?case using async_update_snd(1) [of w s1] by simp
next
  case (reaches_update s s1 ru s2)
  then show ?case using update_snd [of w s1] by simp
next
  case (reaches_version s s1 r s2)
  then show ?case using fetch_version_snd(1) [of w s1] by simp
next
  case (reaches_keepalive s s1 resp fl resp' s2)
  then show ?case using keepalive_snd(2) [of w resp s1] by simp
next
  case (reaches_sync_check s s1 resp fl resp' s2)
  then show ?case using sync_check_snd(2) [of w resp s1] by simp
next
  case (reaches_updates_exist s s1 b s2)
  then show ?case using small_ops_creds(1) [of s1] by simp
next
  case (reaches_wait s s1 s2)
  then show ?case using small_ops_creds(2) [of s1 s2] by simp
next
  case (reaches_poll_interval s s1 i)
  then show ?case by simp
next
  case (reaches_service_host s s1 host)
  then show ?case by simp
qed

text \<open>No task is ever awaited by \<^verbatim>\<open>async_logout\<close>.\<close>

lemma async_logout_awaits:
  "count_list (trace (snd (async_logout w s))) (EvAwaitTask k) = count_list (trace s) (EvAwaitTask k)"
  by (simp add: async_logout_def time_time_def case_prod_beta split: sum.splits option.splits)

lemma async_logout_clears:
  "fst (async_logout w s) = Inr () \<Longrightarrow> \<not> is_connected (snd (async_logout w s))"
  by (auto simp: async_logout_def time_time_def case_prod_beta is_connected_def
      split: sum.splits option.splits)

lemmas prim_defs = emit_def LOG_def advance_def time_time_def asyncio_sleep_def http_call_def
  create_task_def task_cancel_def await_task_def update_headers_def close_response_def

lemmas op_defs = is_connected_def make_url_def version_default_def async_fetch_version_def
  query_prepare_def query_referer_def query_core_def login_params_def login_begin_def
  login_request_def start_sync_task_def start_timeout_task_def init_updates_exist_def
  start_tasks_def async_login_def async_query_def query_orb_def async_update_def
  catch_cancel_def keepalive_body_def keepalive_iter_def sync_check_token_def
  sync_check_body_def sync_check_iter_def cancel_and_await_def close_session_def
  async_logout_def

lemmas demo_defs = demo_world_def demo_server_def demo_client_def

lemma requests_append [simp]: "requests (xs @ ys) = requests xs @ requests ys"
  by (induction xs rule: requests.induct) simp_all

lemma log_levels_append [simp]: "log_levels (xs @ ys) = log_levels xs @ log_levels ys"
  by (induction xs rule: log_levels.induct) simp_all

lemma requests_referer [simp]: "requests (trace (query_referer w uri u s)) = requests (trace s)"
  by (simp add: query_referer_def)

lemma session_state_open:
  "session_state s = Some False \<Longrightarrow> \<exists>c. session s = Some c \<and> \<not> session_closed c"
  by (auto simp: session_state_def)

text \<open>On an open session a \<^verbatim>\<open>GET\<close> or \<^verbatim>\<open>POST\<close> is sent, once, and its outcome is the result.\<close>

lemma query_core_open:
  assumes "session_state s = Some False" and "m = ''GET'' \<or> m = ''POST''"
  shows "fst (query_core w uri m p h t s) =
           (case http w (step s) \<lparr>req_method = m, req_url = make_url w uri s, req_params = p,
                                   req_headers = h, req_timeout = Some t\<rparr> of
              Responded st body final_url \<Rightarrow>
                if 400 \<le> st then Inr None
                else Inr (Some \<lparr>resp_status = st, resp_text = body, resp_url = final_url,
                                resp_closed = True\<rparr>)
            | ConnectionFailed \<Rightarrow> Inr None
            | Interrupted e \<Rightarrow> Inl e)"
    and "requests (trace (snd (query_core w uri m p h t s))) =
           requests (trace s) @ [\<lparr>req_method = m, req_url = make_url w uri s, req_params = p,
                                  req_headers = h, req_timeout = Some t\<rparr>]"
proof -
  from assms(1) obtain c where c: "session s = Some c" "\<not> session_closed c"
    by (auto dest: session_state_open)
  show "fst (query_core w uri m p h t s) =
           (case http w (step s) \<lparr>req_method = m, req_url = make_url w uri s, req_params = p,
                                   req_headers = h, req_timeout = Some t\<rparr> of
              Responded st body final_url \<Rightarrow>
                if 400 \<le> st then Inr None
                else Inr (Some \<lparr>resp_status = st, resp_text = body, resp_url = final_url,
                                resp_closed = True\<rparr>)
            | ConnectionFailed \<Rightarrow> Inr None
            | Interrupted e \<Rightarrow> Inl e)"
    using c assms(2) by (auto simp: query_core_def http_call_def split: http_outcome.splits)
  show "requests (trace (snd (query_core w uri m p h t s))) =
           requests (trace s) @ [\<lparr>req_method = m, req_url = make_url w uri s, req_params = p,
                                  req_headers = h, req_timeout = Some t\<rparr>]"
    using c assms(2) by (auto simp: query_core_def http_call_def split: http_outcome.splits)
qed

lemma rejected_client_facts:
  "fst (async_login reject_world demo_client) = Inr ()"
  "fst (login_request reject_world demo_client) =
     Inr (Some \<lparr>resp_status = 200, resp_text = ''warn'',
                 resp_url = ''https://h/myhome/16/signin'', resp_closed = True\<rparr>)"
  "authenticated rejected_client = Some False"
  "step rejected_client = 3"
  "api_host rejected_client = ''https://h''"
  "api_version rejected_client = ''16''"
  "session_state rejected_client = Some False"
  "count_list (trace rejected_client) EvLogin = 1"
  "updates_exist_event rejected_client = None"
  by (simp_all add: rejected_client_def session_state_def prim_defs op_defs demo_defs reject_world_def)

lemma async_update_connected:
  "is_connected s \<Longrightarrow> sync_timestamp (snd (async_update w s)) = sync_timestamp s"
  by (simp add: async_update_def query_orb_def case_prod_beta async_query_def is_connected_def
      split: sum.splits option.splits)

text \<open>What an iteration of the sync check does with a token that ends in \<open>-0-0\<close>.\<close>

lemma token_settled:
  assumes "handle_response w (Some r)" and "token_match (resp_text r)"
    and "endswith (resp_text r) ''-0-0''" and "updates_exist_event s \<noteq> None"
  shows "updates_exist_event (snd (snd (sync_check_token w r s))) = Some True"
    and "count_list (trace (snd (snd (sync_check_token w r s)))) EvUpdate = Suc (count_list (trace s) EvUpdate)"
    and "count_list (trace (snd (snd (sync_check_token w r s)))) EvLogin
           = count_list (trace s) EvLogin + (if is_connected s then 0 else 1)"
    and "read_since w (step s) (sync_timestamp (snd (snd (sync_check_token w r s))))"
    and "is_connected s \<Longrightarrow> sync_timestamp (snd (snd (sync_check_token w r s))) = wall_clock w (step s)"
proof -
  let ?s3 = "(advance (LOG DEBUG ''Sync token indicates updates may exist, requerying'' s))
               \<lparr>sync_timestamp := wall_clock w (step s), updates_exist_event := Some True\<rparr>"
  have t: "snd (snd (sync_check_token w r s)) =
             (if fst (async_update w ?s3) = Inr False
              then LOG DEBUG ''Pulse data update from sync task failed'' (snd (async_update w ?s3))
              else snd (async_update w ?s3))"
  proof -
    from assms(4) obtain x where "updates_exist_event s = Some x"
      by auto
    with assms(1-3) show ?thesis
      by (simp add: sync_check_token_def time_time_def case_prod_beta split: sum.splits)
  qed
  show "updates_exist_event (snd (snd (sync_check_token w r s))) = Some True"
    unfolding t by (simp add: async_update_updates_exist)
  show "count_list (trace (snd (snd (sync_check_token w r s)))) EvUpdate = Suc (count_list (trace s) EvUpdate)"
    unfolding t by simp
  show "count_list (trace (snd (snd (sync_check_token w r s)))) EvLogin
           = count_list (trace s) EvLogin + (if is_connected s then 0 else 1)"
    unfolding t by (simp add: async_update_def query_orb_def case_prod_beta is_connected_def
        split: sum.splits option.splits)
  have "sync_timestamp (snd (async_update w ?s3)) = wall_clock w (step s)
        \<or> read_since w (Suc (step s)) (sync_timestamp (snd (async_update w ?s3)))"
    using async_update_timestamp [of w ?s3] by simp
  then have "read_since w (step s) (sync_timestamp (snd (async_update w ?s3)))"
    by (auto intro: read_since_mono)
  then show "read_since w (step s) (sync_timestamp (snd (snd (sync_check_token w r s))))"
    unfolding t by simp
  show "sync_timestamp (snd (snd (sync_check_token w r s))) = wall_clock w (step s)"
    if "is_connected s"
  proof -
    from that have "is_connected ?s3" by (simp add: is_connected_def)
    from async_update_connected [OF this, of w] show ?thesis
      unfolding t by simp
  qed
qed

text \<open>What it does with a token that does not end in \<open>-0-0\<close>.\<close>

lemma token_unsettled:
  assumes "handle_response w (Some r)" and "token_match (resp_text r)"
    and "\<not> endswith (resp_text r) ''-0-0''"
  shows "sync_check_token w r s =
           (Inr (), close_response (Some r),
            (advance (LOG DEBUG ''Sync token indicates no remote updates to process'' s))
              \<lparr>sync_timestamp := wall_clock w (step s)\<rparr>)"
  using assms by (simp add: sync_check_token_def time_time_def)

text \<open>What it does with a text that is no token.\<close>

lemma token_garbage:
  assumes "handle_response w (Some r)" and "\<not> token_match (resp_text r)"
  shows "count_list (trace (snd (snd (sync_check_token w r s)))) EvLogin = Suc (count_list (trace s) EvLogin)"
    and "count_list (trace (snd (snd (sync_check_token w r s)))) EvUpdate = count_list (trace s) EvUpdate"
    and "fst (sync_check_token w r s) =
           fst (async_login w (LOG DEBUG ''Received text from ADT Pulse site''
                  (LOG WARNING ''Unexpected sync check format, forcing re-auth'' s)))"
  using assms by (simp_all add: sync_check_token_def case_prod_beta split: sum.splits)

text \<open>An iteration whose sleep is not cancelled and whose poll returns a response.\<close>

lemma sync_check_iter_polled:
  assumes "asyncio_sleep w (poll_interval s) s = (Inr (), s1)"
    and "async_query w (ADT_SYNC_CHECK_URI w) ''GET'' (sync_params (sync_timestamp s1)) None True 1 s1
           = (Inr (Some r), s2)"
  shows "sync_check_iter w response s =
           catch_cancel ''ADT Pulse sync check task cancelled'' (sync_check_token w r s2)"
    and "updates_exist_event s \<noteq> None \<Longrightarrow> updates_exist_event s2 = updates_exist_event s"
    and "count_list (trace s2) EvUpdate = count_list (trace s) EvUpdate"
    and "count_list (trace s2) EvLogin = count_list (trace s) EvLogin + (if is_connected s then 0 else 1)"
    and "is_connected s \<Longrightarrow> is_connected s2"
proof -
  have s1: "s1 = emit (EvSleep (poll_interval s)) (advance s)"
    using assms(1) by (auto simp: asyncio_sleep_def)
  have s2: "s2 = snd (async_query w (ADT_SYNC_CHECK_URI w) ''GET'' (sync_params (sync_timestamp s1))
                        None True 1 s1)"
    using assms(2) by simp
  show "sync_check_iter w response s =
           catch_cancel ''ADT Pulse sync check task cancelled'' (sync_check_token w r s2)"
    using assms by (simp add: sync_check_iter_def sync_check_body_def)
  show "updates_exist_event s2 = updates_exist_event s" if "updates_exist_event s \<noteq> None"
    using that unfolding s2 by (simp add: async_query_updates_exist s1)
  show "count_list (trace s2) EvUpdate = count_list (trace s) EvUpdate"
    unfolding s2 by (simp add: s1)
  show "count_list (trace s2) EvLogin = count_list (trace s) EvLogin + (if is_connected s then 0 else 1)"
    unfolding s2 by (simp add: s1 is_connected_def)
  show "is_connected s2" if "is_connected s"
  proof -
    from that have "is_connected s1" by (simp add: s1 is_connected_def)
    then show ?thesis
      unfolding s2 by (simp add: async_query_connected) (simp add: is_connected_def)
  qed
qed

lemmas eval_defs = prim_defs op_defs demo_defs sync_params_def py_int_def

text \<open>The first login in an example world whose server accepts it.\<close>

lemma first_login_shape:
  assumes "accepts 2"
  shows "\<exists>hs tr. async_login (demo_world (demo_server accepts token)) demo_client
                    = (Inr (), online_client hs tr)
                 \<and> count_list tr EvLogin = 1 \<and> count_list tr EvUpdate = 0
                 \<and> count_list tr (EvCancelTask 0) = 0 \<and> count_list tr (EvCancelTask 1) = 0"
  using assms by (simp add: online_client_def eval_defs numeral_2_eq_2)

lemma settled_shape:
  "\<exists>hs tr. settled_client = online_client hs tr \<and> count_list tr EvLogin = 1 \<and> count_list tr EvUpdate = 0
           \<and> count_list tr (EvCancelTask 0) = 0 \<and> count_list tr (EvCancelTask 1) = 0"
proof -
  from first_login_shape [of "\<lambda>n. True" "''7-0-0''"]
  obtain hs tr where "async_login settled_world demo_client = (Inr (), online_client hs tr)"
    and "count_list tr EvLogin = 1" and "count_list tr EvUpdate = 0"
    and "count_list tr (EvCancelTask 0) = 0" and "count_list tr (EvCancelTask 1) = 0"
    unfolding settled_world_def by auto
  then show ?thesis
    unfolding settled_client_def by auto
qed

lemma busy_shape:
  "\<exists>hs tr. busy_client = online_client hs tr \<and> count_list tr EvLogin = 1 \<and> count_list tr EvUpdate = 0
           \<and> count_list tr (EvCancelTask 0) = 0 \<and> count_list tr (EvCancelTask 1) = 0"
proof -
  from first_login_shape [of "\<lambda>n. True" "''7-1-2''"]
  obtain hs tr where "async_login busy_world demo_client = (Inr (), online_client hs tr)"
    and "count_list tr EvLogin = 1" and "count_list tr EvUpdate = 0"
    and "count_list tr (EvCancelTask 0) = 0" and "count_list tr (EvCancelTask 1) = 0"
    unfolding busy_world_def by auto
  then show ?thesis
    unfolding busy_client_def by auto
qed

lemma outage_shape:
  "\<exists>hs tr. outage_client = online_client hs tr \<and> count_list tr EvLogin = 1 \<and> count_list tr EvUpdate = 0
           \<and> count_list tr (EvCancelTask 0) = 0 \<and> count_list tr (EvCancelTask 1) = 0"
proof -
  from first_login_shape [of "\<lambda>n. n < 9" "''garbage''"]
  obtain hs tr where "async_login outage_world demo_client = (Inr (), online_client hs tr)"
    and "count_list tr EvLogin = 1" and "count_list tr EvUpdate = 0"
    and "count_list tr (EvCancelTask 0) = 0" and "count_list tr (EvCancelTask 1) = 0"
    unfolding outage_world_def by auto
  then show ?thesis
    unfolding outage_client_def by auto
qed

lemma blip_shape:
  "\<exists>hs tr. blip_client = online_client hs tr \<and> count_list tr EvLogin = 1 \<and> count_list tr EvUpdate = 0
           \<and> count_list tr (EvCancelTask 0) = 0 \<and> count_list tr (EvCancelTask 1) = 0"
proof -
  from first_login_shape [of "\<lambda>n. n \<noteq> 9" "''garbage''"]
  obtain hs tr where "async_login blip_world demo_client = (Inr (), online_client hs tr)"
    and "count_list tr EvLogin = 1" and "count_list tr EvUpdate = 0"
    and "count_list tr (EvCancelTask 0) = 0" and "count_list tr (EvCancelTask 1) = 0"
    unfolding blip_world_def by auto
  then show ?thesis
    unfolding blip_client_def by auto
qed

text \<open>
  An iteration of the sync check task after that login, in an example world whose server
  answers the poll with \<open>''garbage''\<close> and rejects the login that this forces.
\<close>

lemma garbage_tick_shape:
  assumes "\<not> accepts 9"
  shows "\<exists>hs' tr'. sync_check_iter (demo_world (demo_server accepts ''garbage'')) None (online_client hs tr)
                      = (Continue,
                         Some \<lparr>resp_status = 200, resp_text = ''garbage'',
                               resp_url = ''https://h/myhome/16/sync'', resp_closed = True\<rparr>,
                         offline_client hs' tr')
                   \<and> count_list tr' EvLogin = Suc (count_list tr EvLogin)
                   \<and> count_list tr' EvUpdate = count_list tr EvUpdate
                   \<and> count_list tr' (EvCancelTask 0) = count_list tr (EvCancelTask 0)
                   \<and> count_list tr' (EvCancelTask 1) = count_list tr (EvCancelTask 1)"
  using assms
  by (simp add: online_client_def offline_client_def eval_defs token_match_def is_digit_def)

lemma demo_sleep:
  "asyncio_sleep (demo_world net) d s = (Inr (), emit (EvSleep d) (advance s))"
  by (simp add: asyncio_sleep_def demo_world_def)

text \<open>The poll of the sync check task after the first login, in any example world.\<close>

lemma poll_shape:
  "fst (async_query (demo_world (demo_server accepts token)) ''/sync'' ''GET'' (sync_params 4)
          None True 1 (emit (EvSleep 2) (advance (online_client hs tr))))
     = Inr (Some \<lparr>resp_status = 200, resp_text = token,
                   resp_url = ''https://h/myhome/16/sync'', resp_closed = True\<rparr>)"
  "step (snd (async_query (demo_world (demo_server accepts token)) ''/sync'' ''GET'' (sync_params 4)
          None True 1 (emit (EvSleep 2) (advance (online_client hs tr))))) = 8"
  by (simp_all add: online_client_def eval_defs)

lemma online_client_simps:
  "poll_interval (online_client hs tr) = 2"
  "sync_timestamp (online_client hs tr) = 4"
  "updates_exist_event (online_client hs tr) = Some False"
  "is_connected (online_client hs tr)"
  "sync_task (online_client hs tr) = Some 0"
  "timeout_task (online_client hs tr) = Some 1"
  "trace (online_client hs tr) = tr"
  "step (online_client hs tr) = 6"
  by (simp_all add: online_client_def is_connected_def)

lemma offline_client_simps:
  "poll_interval (offline_client hs tr) = 2"
  "sync_timestamp (offline_client hs tr) = 4"
  "updates_exist_event (offline_client hs tr) = Some False"
  "\<not> is_connected (offline_client hs tr)"
  "authenticated (offline_client hs tr) = Some False"
  "sync_task (offline_client hs tr) = Some 0"
  "timeout_task (offline_client hs tr) = Some 1"
  "trace (offline_client hs tr) = tr"
  "step (offline_client hs tr) = 10"
  by (simp_all add: offline_client_def online_client_def is_connected_def)

text \<open>
  The keepalive task wakes up after that iteration, in an example world whose server
  goes on rejecting the login.
\<close>

lemma keepalive_resume_shape:
  assumes "\<not> accepts 12"
  shows "fst (keepalive_resume (demo_world (demo_server accepts token)) 1 None (offline_client hs tr))
           = Some LoopExit"
  using assms
  by (simp add: keepalive_resume_def offline_client_def online_client_def eval_defs)

text \<open>The keepalive task starts after the first login in the world that cancels every sleep.\<close>

lemma keepalive_cancel_shape:
  "fst (keepalive_task cancel_world 1 (online_client hs tr)) = Some TaskCancelled"
  by (simp add: keepalive_task_def cancel_world_def settled_world_def online_client_def eval_defs)

text \<open>
  Logout after that iteration, in an example world whose server accepts the login again.
\<close>

lemma logout_shape:
  assumes "accepts 11"
  shows "\<exists>s'. async_logout (demo_world (demo_server accepts token)) (offline_client hs tr) = (Inr (), s')
            \<and> authenticated s' = Some False
            \<and> sync_task s' = Some 2 \<and> timeout_task s' = Some 3
            \<and> count_list (trace s') (EvCancelTask 0) = Suc (count_list tr (EvCancelTask 0))
            \<and> count_list (trace s') (EvCancelTask 1) = Suc (count_list tr (EvCancelTask 1))"
  using assms
  by (simp add: offline_client_def online_client_def eval_defs)

text \<open>
  A second iteration of the sync check task, in an example world whose server goes on
  answering \<open>''garbage''\<close> and rejecting the login.
\<close>

lemma second_garbage_tick_shape:
  assumes "\<not> accepts 12" and "\<not> accepts 15"
  shows "\<exists>fl s'. sync_check_iter (demo_world (demo_server accepts ''garbage'')) None (offline_client hs tr)
                   = (fl, Some \<lparr>resp_status = 200, resp_text = ''garbage'',
                                 resp_url = ''https://h/myhome/16/sync'', resp_closed = True\<rparr>, s')
                \<and> count_list (trace s') EvLogin = count_list tr EvLogin + 2"
  using assms
  by (simp add: offline_client_def online_client_def eval_defs token_match_def is_digit_def)

lemma cancelsI:
  "sleep_cancelled w k \<Longrightarrow> cancels w"
  "http w k rq = Interrupted CancelledError \<Longrightarrow> cancels w"
  "update_sites w soup st = Inl CancelledError \<Longrightarrow> cancels w"
  by (auto simp: cancels_def)

lemma fetch_version_cancel:
  "fst (async_fetch_version w s) = Inl CancelledError \<Longrightarrow> cancels w"
  by (auto simp: async_fetch_version_def http_call_def
      split: option.splits if_splits http_outcome.splits intro: cancelsI)

lemma query_core_cancel:
  "fst (query_core w uri m p h t s) = Inl CancelledError \<Longrightarrow> cancels w"
  by (auto simp: query_core_def http_call_def
      split: option.splits if_splits http_outcome.splits intro: cancelsI)

lemma login_request_cancel:
  "fst (login_request w s) = Inl CancelledError \<Longrightarrow> cancels w"
  by (auto simp: login_request_def case_prod_beta split: sum.splits
      dest: fetch_version_cancel query_core_cancel)

lemma start_tasks_cancel:
  "fst (start_tasks w s) = Inl CancelledError \<Longrightarrow> cancels w"
  by (auto simp: start_tasks_def asyncio_sleep_def split: if_splits intro: cancelsI)

lemma async_login_cancel:
  "fst (async_login w s) = Inl CancelledError \<Longrightarrow> cancels w"
  by (auto simp: async_login_def case_prod_beta time_time_def
      split: sum.splits option.splits if_splits
      dest: login_request_cancel start_tasks_cancel intro: cancelsI)

lemma async_query_cancel:
  "fst (async_query w uri m p h force t s) = Inl CancelledError \<Longrightarrow> cancels w"
  by (auto simp: async_query_def case_prod_beta split: sum.splits if_splits
      dest: async_login_cancel query_core_cancel)

lemma keepalive_body_cancel:
  "fst (keepalive_body w response s) = Inl CancelledError \<Longrightarrow> cancels w"
  by (auto simp: keepalive_body_def asyncio_sleep_def case_prod_beta
      split: sum.splits if_splits dest: async_query_cancel intro: cancelsI)

lemma released_close [simp]: "released (close_response r)"
  by (simp add: released_def close_response_def split: option.splits)

lemma catch_cancel_cases:
  "catch_cancel msg x = (Cancelled, r, s) \<Longrightarrow> fst x = Inl CancelledError \<and> released r"
  "catch_cancel msg x = (Raised e, r, s) \<Longrightarrow> e \<noteq> CancelledError"
  by (auto simp: catch_cancel_def split: prod.splits sum.splits if_splits)

lemma keepalive_iter_cases:
  "keepalive_iter w response s = (Cancelled, r, s') \<Longrightarrow> cancels w \<and> released r"
  "keepalive_iter w response s = (Raised e, r, s') \<Longrightarrow> e \<noteq> CancelledError"
  by (auto simp: keepalive_iter_def dest: catch_cancel_cases keepalive_body_cancel)

text \<open>How the keepalive loop can end.\<close>

lemma keepalive_loop_ends:
  "keepalive_loop w n response s = (Some e, r', s') \<Longrightarrow>
     (e = TaskCancelled \<and> cancels w \<and> released r')
     \<or> (e = LoopExit \<and> authenticated s' = Some False)
     \<or> (\<exists>x. e = TaskRaised x \<and> x \<noteq> CancelledError)"
proof (induction n arbitrary: response s)
  case 0
  then show ?case by simp
next
  case (Suc n)
  show ?case
  proof (cases "authenticated s")
    case None
    with Suc.prems show ?thesis by auto
  next
    case (Some flag)
    show ?thesis
    proof (cases flag)
      case False
      with Some Suc.prems show ?thesis by auto
    next
      case True
      obtain fl r1 s1 where it: "keepalive_iter w response s = (fl, r1, s1)"
        by (cases "keepalive_iter w response s") auto
      show ?thesis
      proof (cases fl)
        case Continue
        with it Some True Suc.prems have "keepalive_loop w n r1 s1 = (Some e, r', s')"
          by simp
        then show ?thesis by (rule Suc.IH)
      next
        case Cancelled
        with it Some True Suc.prems keepalive_iter_cases(1) [of w response s r1 s1]
        show ?thesis by auto
      next
        case (Raised x)
        with it Some True Suc.prems keepalive_iter_cases(2) [of w response s x r1 s1]
        show ?thesis by auto
      qed
    qed
  qed
qed

text \<open>
  Once the update event exists it exists for good: no operation sets the attribute back
  to \<^verbatim>\<open>None\<close>. The guard at the start of the sync check task therefore holds in
  every later iteration.
\<close>

lemma catch_cancel_exists:
  "(updates_exist_event (snd (snd (catch_cancel msg x))) = None)
     = (updates_exist_event (snd (snd x)) = None)"
  by simp

lemma keepalive_iter_exists:
  "updates_exist_event s \<noteq> None \<Longrightarrow> updates_exist_event (snd (snd (keepalive_iter w response s))) \<noteq> None"
  by (simp add: keepalive_iter_def keepalive_body_def asyncio_sleep_def case_prod_beta
      async_query_updates_exist split: sum.splits)

lemma sync_check_token_exists:
  assumes "updates_exist_event s \<noteq> None"
  shows "updates_exist_event (snd (snd (sync_check_token w r s))) \<noteq> None"
proof -
  from assms obtain x where "updates_exist_event s = Some x"
    by auto
  then show ?thesis
    by (auto simp: sync_check_token_def time_time_def case_prod_beta
        async_login_updates_exist async_update_updates_exist split: sum.splits)
qed

lemma sync_check_iter_exists:
  "updates_exist_event s \<noteq> None \<Longrightarrow> updates_exist_event (snd (snd (sync_check_iter w response s))) \<noteq> None"
  by (simp add: sync_check_iter_def sync_check_body_def asyncio_sleep_def case_prod_beta
      async_query_updates_exist sync_check_token_exists del: not_None_eq
      split: sum.splits option.splits)

lemma async_logout_exists:
  "updates_exist_event s \<noteq> None \<Longrightarrow> updates_exist_event (snd (async_logout w s)) \<noteq> None"
  by (simp add: async_logout_def time_time_def case_prod_beta cancel_and_await_def task_cancel_def
      async_query_updates_exist split: sum.splits option.splits)

lemma small_ops_exist:
  "updates_exist_event s \<noteq> None \<Longrightarrow> updates_exist_event (snd (updates_exist s)) \<noteq> None"
  "wait_for_update s = Inr (Resumed s') \<Longrightarrow> updates_exist_event s' \<noteq> None"
  "updates_exist_event (set_poll_interval i s) = updates_exist_event s"
  "updates_exist_event (set_service_host w host s) = updates_exist_event s"
  by (auto simp: updates_exist_def wait_for_update_def set_poll_interval_def set_service_host_def
      split: option.splits if_splits)

lemma reaches_updates_exist:
  "reaches w s s' \<Longrightarrow> updates_exist_event s \<noteq> None \<Longrightarrow> updates_exist_event s' \<noteq> None"
proof (induction rule: reaches.induct)
  case (reaches_refl s)
  then show ?case by simp
next
  case (reaches_login s s1 r s2)
  then show ?case using async_login_updates_exist [of s1 w] by simp
next
  case (reaches_logout s s1 r s2)
  then show ?case using async_logout_exists [of s1 w] by simp
next
  case (reaches_async_query s s1 uri m p h force t rq s2)
  then show ?case using async_query_updates_exist [of s1 w uri m p h force t] by simp
next
  case (reaches_query s s1 uri m p h force t rq s2)
  then show ?case using async_query_updates_exist [of s1 w uri m p h force t]
    by (auto simp: query_def split: if_splits)
next
  case (reaches_async_update s s1 ru s2)
  then show ?case using async_update_updates_exist [of s1 w] by simp
next
  case (reaches_update s s1 ru s2)
  then show ?case using async_update_updates_exist [of s1 w]
    by (auto simp: update_def split: if_splits)
next
  case (reaches_version s s1 r s2)
  then show ?case using fetch_version_snd(3) [of w s1] by simp
next
  case (reaches_keepalive s s1 resp fl resp' s2)
  then show ?case using keepalive_iter_exists [of s1 w resp] by simp
next
  case (reaches_sync_check s s1 resp fl resp' s2)
  then show ?case using sync_check_iter_exists [of s1 w resp] by simp
next
  case (reaches_updates_exist s s1 b s2)
  then show ?case using small_ops_exist(1) [of s1] by simp
next
  case (reaches_wait s s1 s2)
  then show ?case using small_ops_exist(2) [of s1 s2] by simp
next
  case (reaches_poll_interval s s1 i)
  then show ?case by (simp add: small_ops_exist)
next
  case (reaches_service_host s s1 host)
  then show ?case by (simp add: small_ops_exist)
qed

text \<open>\<^verbatim>\<open>_async_query\<close> with \<^verbatim>\<open>force_login=False\<close> is \<open>query_core\<close>, and \<^verbatim>\<open>query\<close> is
  \<^verbatim>\<open>_async_query\<close> once the session thread's loop exists.\<close>

lemma async_query_unforced:
  "async_query w uri m p h False t s = query_core w uri m p h t s"
  by (simp add: async_query_def)

lemma query_delegates:
  "event_loop s \<Longrightarrow> query w uri m p h force t s = async_query w uri m p h force t s"
  by (simp add: query_def)

subsection \<open>The forced login of the request executor\<close>

text \<open>
  C1, as the code has it. A call of the request executor with \<^verbatim>\<open>force_login\<close> true on
  an object that is not authenticated performs a full login first. Whenever that login
  returns, whether or not it has authenticated the object, the original \<^verbatim>\<open>GET\<close> or
  \<^verbatim>\<open>POST\<close> is then sent, exactly once, and the outcome of that request alone decides
  the result: no response for a status of 400 or more or a connection failure, the
  response otherwise.
\<close>

theorem forced_login_then_request:
  assumes "force_login" and "\<not> is_connected s"
    and "async_login w s = (Inr u, s1)"
    and "m = ''GET'' \<or> m = ''POST''"
  shows "prefix (trace s @ [EvLogin]) (trace s1)
       \<and> fst (async_query w uri m p h force_login t s) =
           (case http w (step s1) \<lparr>req_method = m, req_url = make_url w uri s1, req_params = p,
                                    req_headers = h, req_timeout = Some t\<rparr> of
              Responded st body final_url \<Rightarrow>
                if 400 \<le> st then Inr None
                else Inr (Some \<lparr>resp_status = st, resp_text = body, resp_url = final_url,
                                resp_closed = True\<rparr>)
            | ConnectionFailed \<Rightarrow> Inr None
            | Interrupted e \<Rightarrow> Inl e)
       \<and> requests (trace (snd (async_query w uri m p h force_login t s))) =
           requests (trace s1) @ [\<lparr>req_method = m, req_url = make_url w uri s1, req_params = p,
                                   req_headers = h, req_timeout = Some t\<rparr>]"
proof -
  have q: "async_query w uri m p h force_login t s = query_core w uri m p h t s1"
    using assms(1-3) by (simp add: async_query_def)
  have "fst (async_login w s) = Inr u" and s1: "s1 = snd (async_login w s)"
    using assms(3) by simp_all
  then have o: "session_state s1 = Some False"
    using async_login_open [of w s u] by simp
  have "prefix (trace s @ [EvLogin]) (trace s1)"
    using async_login_prefix [of s w] s1 by simp
  then show ?thesis
    using query_core_open [OF o assms(4), of w uri p h t] q by simp
qed

theorem forced_login_then_request_witness:
  "\<not> is_connected demo_client
   \<and> async_login reject_world demo_client = (Inr (), rejected_client)
   \<and> \<not> is_connected rejected_client
   \<and> prefix (trace demo_client @ [EvLogin]) (trace rejected_client)
   \<and> fst (async_query reject_world ''/orb'' ''GET'' None None True 1 demo_client) =
       Inr (Some \<lparr>resp_status = 200, resp_text = ''page'',
                   resp_url = ''https://h/myhome/16/orb'', resp_closed = True\<rparr>)
   \<and> requests (trace (snd (async_query reject_world ''/orb'' ''GET'' None None True 1 demo_client))) =
       requests (trace rejected_client) @
         [\<lparr>req_method = ''GET'', req_url = ''https://h/myhome/16/orb'', req_params = None,
           req_headers = None, req_timeout = Some 1\<rparr>]"
proof -
  have h1: "\<not> is_connected demo_client"
    by (simp add: is_connected_def demo_client_def)
  have h2: "async_login reject_world demo_client = (Inr (), rejected_client)"
    using rejected_client_facts(1) by (simp add: rejected_client_def prod_eq_iff)
  have h3: "''GET'' = ''GET'' \<or> ''GET'' = ''POST''"
    by simp
  have n: "\<not> is_connected rejected_client"
    by (simp add: is_connected_def rejected_client_facts)
  show ?thesis
    using forced_login_then_request [OF _ h1 h2 h3, of True "''/orb''" None None 1] h1 h2 n
    by (simp add: rejected_client_facts make_url_def reject_world_def demo_world_def demo_server_def)
qed

text \<open>
  C1 as stated fails: in the example world the forced login is rejected (the page holds
  the error marker and the object stays unauthenticated), and still the original request
  is sent and its response returned.
\<close>

theorem forced_login_failure_counterexample:
  "\<not> is_connected demo_client
   \<and> fst (login_request reject_world demo_client) =
       Inr (Some \<lparr>resp_status = 200, resp_text = ''warn'',
                   resp_url = ''https://h/myhome/16/signin'', resp_closed = True\<rparr>)
   \<and> \<not> is_connected (snd (async_login reject_world demo_client))
   \<and> fst (async_query reject_world ''/orb'' ''GET'' None None True 1 demo_client) =
       Inr (Some \<lparr>resp_status = 200, resp_text = ''page'',
                   resp_url = ''https://h/myhome/16/orb'', resp_closed = True\<rparr>)
   \<and> last (requests (trace (snd (async_query reject_world ''/orb'' ''GET'' None None True 1 demo_client)))) =
       \<lparr>req_method = ''GET'', req_url = ''https://h/myhome/16/orb'', req_params = None,
        req_headers = None, req_timeout = Some 1\<rparr>"
  by (simp add: prim_defs op_defs demo_defs reject_world_def)

subsection \<open>A login that the server answers with the error marker\<close>

text \<open>
  C2. When the response to the login form yields a page that holds the error marker
  (\<^verbatim>\<open>div\<close> with id \<^verbatim>\<open>warnMsgContents\<close>), whatever its HTTP status, \<^verbatim>\<open>async_login\<close>
  returns normally, the authenticated event is cleared when it returns and was never set
  on the way (it is cleared from the moment the login creates it), the caller then sees
  \<^verbatim>\<open>is_connected\<close> false, and no task and no update event has been created.
\<close>

theorem login_error_marker:
  assumes "login_request w s = (Inr resp, s1)"
    and "make_soup w resp = Some soup"
    and "find_warn w soup"
  shows "async_login w s =
           (Inr (), (LOG ERROR ''Invalid ADT Pulse response'' s1)\<lparr>authenticated := Some False\<rparr>)
       \<and> authenticated (login_begin w (emit EvLogin s)) = Some False
       \<and> authenticated s1 = Some False
       \<and> authenticated (snd (async_login w s)) = Some False
       \<and> \<not> is_connected (snd (async_login w s))
       \<and> sync_task (snd (async_login w s)) = sync_task s
       \<and> timeout_task (snd (async_login w s)) = timeout_task s
       \<and> updates_exist_event (snd (async_login w s)) = updates_exist_event s"
proof -
  have a: "async_login w s =
           (Inr (), (LOG ERROR ''Invalid ADT Pulse response'' s1)\<lparr>authenticated := Some False\<rparr>)"
    using assms by (simp add: async_login_def)
  have s1: "s1 = snd (login_request w s)"
    using assms(1) by simp
  show ?thesis
    unfolding a by (simp add: is_connected_def s1)
qed

theorem login_error_marker_witness:
  "login_request reject_world demo_client =
     (Inr (Some \<lparr>resp_status = 200, resp_text = ''warn'',
                  resp_url = ''https://h/myhome/16/signin'', resp_closed = True\<rparr>),
      snd (login_request reject_world demo_client))
   \<and> make_soup reject_world
        (Some \<lparr>resp_status = 200, resp_text = ''warn'',
               resp_url = ''https://h/myhome/16/signin'', resp_closed = True\<rparr>) = Some ''warn''
   \<and> find_warn reject_world ''warn''
   \<and> fst (async_login reject_world demo_client) = Inr ()
   \<and> authenticated (snd (async_login reject_world demo_client)) = Some False
   \<and> \<not> is_connected (snd (async_login reject_world demo_client))"
proof -
  have h1: "login_request reject_world demo_client =
     (Inr (Some \<lparr>resp_status = 200, resp_text = ''warn'',
                  resp_url = ''https://h/myhome/16/signin'', resp_closed = True\<rparr>),
      snd (login_request reject_world demo_client))"
    using rejected_client_facts(2) by (simp add: prod_eq_iff)
  have h2: "make_soup reject_world
        (Some \<lparr>resp_status = 200, resp_text = ''warn'',
               resp_url = ''https://h/myhome/16/signin'', resp_closed = True\<rparr>) = Some ''warn''"
    by (simp add: reject_world_def demo_world_def)
  have h3: "find_warn reject_world ''warn''"
    by (simp add: reject_world_def demo_world_def)
  show ?thesis
    using login_error_marker [OF h1 h2 h3] h1 h2 h3 by (simp add: is_connected_def)
qed

subsection \<open>The sync check with a token\<close>



subsection \<open>The sync check with a text that is no token\<close>




subsection \<open>Logout\<close>

text \<open>
  C5, evaluated on the code. \<^verbatim>\<open>async_logout\<close> never awaits a task: the \<^verbatim>\<open>await\<close>
  stands in a handler for \<^verbatim>\<open>CancelledError\<close> that \<^verbatim>\<open>Task.cancel()\<close> never
  triggers. And in the example world with the short rejection, the sequence login, one
  iteration of the sync check task (whose forced re-login is rejected), logout ends with
  the authenticated event cleared but with both task attributes holding new tasks: the
  logout request is sent with \<^verbatim>\<open>force_login\<close>, the object is unauthenticated, so
  \<^verbatim>\<open>async_login\<close> runs after the attributes have been set to \<^verbatim>\<open>None\<close> and, being
  accepted this time, creates the tasks 2 and 3. The tasks 0 and 1 have been cancelled
  once each.
\<close>

theorem logout_leaves_new_tasks:
  "count_list (trace (snd (async_logout w s))) (EvAwaitTask k) = count_list (trace s) (EvAwaitTask k)
   \<and> is_connected blip_client
   \<and> sync_task blip_client = Some 0 \<and> timeout_task blip_client = Some 1
   \<and> \<not> is_connected blip_after_tick
   \<and> sync_task blip_after_tick = Some 0 \<and> timeout_task blip_after_tick = Some 1
   \<and> fst (async_logout blip_world blip_after_tick) = Inr ()
   \<and> authenticated (snd (async_logout blip_world blip_after_tick)) = Some False
   \<and> sync_task (snd (async_logout blip_world blip_after_tick)) = Some 2
   \<and> timeout_task (snd (async_logout blip_world blip_after_tick)) = Some 3
   \<and> count_list (trace (snd (async_logout blip_world blip_after_tick))) (EvCancelTask 0) = 1
   \<and> count_list (trace (snd (async_logout blip_world blip_after_tick))) (EvCancelTask 1) = 1"
proof -
  obtain hs tr where sh: "blip_client = online_client hs tr"
    and c: "count_list tr (EvCancelTask 0) = 0" "count_list tr (EvCancelTask 1) = 0"
    using blip_shape by auto
  have "\<not> (9::nat) \<noteq> 9"
    by simp
  from garbage_tick_shape [of "\<lambda>n. n \<noteq> 9" hs tr, OF this]
  obtain hs' tr' where sh': "blip_after_tick = offline_client hs' tr'"
    and c': "count_list tr' (EvCancelTask 0) = count_list tr (EvCancelTask 0)"
      "count_list tr' (EvCancelTask 1) = count_list tr (EvCancelTask 1)"
    by (auto simp: blip_after_tick_def sh blip_world_def)
  have "(11::nat) \<noteq> 9"
    by simp
  from logout_shape [of "\<lambda>n. n \<noteq> 9" "''garbage''" hs' tr', OF this]
  obtain s' where "async_logout blip_world blip_after_tick = (Inr (), s')"
    and "authenticated s' = Some False" and "sync_task s' = Some 2" and "timeout_task s' = Some 3"
    and "count_list (trace s') (EvCancelTask 0) = Suc (count_list tr' (EvCancelTask 0))"
    and "count_list (trace s') (EvCancelTask 1) = Suc (count_list tr' (EvCancelTask 1))"
    by (auto simp: sh' blip_world_def)
  then show ?thesis
    using c c' by (simp add: async_logout_awaits sh sh' online_client_simps offline_client_simps)
qed

subsection \<open>The ways the keepalive task ends\<close>

text \<open>
  C7, as the code has it. Whenever the keepalive task ends, be it from its start or
  from a sleep in which other tasks have changed the object, it ends in one of three
  ways: it has caught a cancellation that the world delivered at one of its suspension
  points and has closed the response it holds before returning; or its loop test has
  found the authenticated event cleared, and the task returns without any cancellation;
  or an exception other than a cancellation has left the task. As long as none of the
  three happens the loop goes on.
\<close>

theorem keepalive_task_ends:
  assumes "keepalive_task w n s = (Some e, r', s') \<or> keepalive_resume w n response s = (Some e, r', s')"
  shows "(e = TaskCancelled \<and> cancels w \<and> released r')
       \<or> (e = LoopExit \<and> authenticated s' = Some False)
       \<or> (\<exists>x. e = TaskRaised x \<and> x \<noteq> CancelledError)"
  using assms
proof
  assume "keepalive_task w n s = (Some e, r', s')"
  then show ?thesis
    by (auto simp: keepalive_task_def split: if_splits dest: keepalive_loop_ends)
next
  assume a: "keepalive_resume w n response s = (Some e, r', s')"
  obtain fl r1 s1 where it: "keepalive_iter w response s = (fl, r1, s1)"
    by (cases "keepalive_iter w response s") auto
  show ?thesis
  proof (cases fl)
    case Continue
    with it a have "keepalive_loop w n r1 s1 = (Some e, r', s')"
      by (simp add: keepalive_resume_def)
    then show ?thesis by (rule keepalive_loop_ends)
  next
    case Cancelled
    with it a keepalive_iter_cases(1) [of w response s r1 s1]
    show ?thesis by (auto simp: keepalive_resume_def)
  next
    case (Raised x)
    with it a keepalive_iter_cases(2) [of w response s x r1 s1]
    show ?thesis by (auto simp: keepalive_resume_def)
  qed
qed

theorem keepalive_task_ends_witness:
  "fst (keepalive_resume outage_world 1 None outage_after_tick) = Some LoopExit
   \<and> authenticated (snd (snd (keepalive_resume outage_world 1 None outage_after_tick))) = Some False
   \<and> fst (keepalive_task cancel_world 1 settled_client) = Some TaskCancelled
   \<and> cancels cancel_world
   \<and> released (fst (snd (keepalive_task cancel_world 1 settled_client)))"
proof -
  obtain hs tr where sh: "outage_client = online_client hs tr"
    using outage_shape by auto
  have "\<not> (9::nat) < 9"
    by simp
  from garbage_tick_shape [of "\<lambda>n. n < 9" hs tr, OF this]
  obtain hs' tr' where sh': "outage_after_tick = offline_client hs' tr'"
    by (auto simp: outage_after_tick_def sh outage_world_def)
  have "\<not> (12::nat) < 9"
    by simp
  from keepalive_resume_shape [of "\<lambda>n. n < 9" "''garbage''" hs' tr', OF this]
  have a: "fst (keepalive_resume outage_world 1 None outage_after_tick) = Some LoopExit"
    by (simp add: sh' outage_world_def)
  then have h1: "keepalive_task outage_world 1 outage_after_tick
                   = (Some LoopExit, fst (snd (keepalive_resume outage_world 1 None outage_after_tick)),
                      snd (snd (keepalive_resume outage_world 1 None outage_after_tick)))
                 \<or> keepalive_resume outage_world 1 None outage_after_tick
                   = (Some LoopExit, fst (snd (keepalive_resume outage_world 1 None outage_after_tick)),
                      snd (snd (keepalive_resume outage_world 1 None outage_after_tick)))"
    by (simp add: prod_eq_iff)
  obtain hs2 tr2 where sh2: "settled_client = online_client hs2 tr2"
    using settled_shape by auto
  have b: "fst (keepalive_task cancel_world 1 settled_client) = Some TaskCancelled"
    using keepalive_cancel_shape [of hs2 tr2] by (simp add: sh2)
  then have h2: "keepalive_task cancel_world 1 settled_client
                   = (Some TaskCancelled, fst (snd (keepalive_task cancel_world 1 settled_client)),
                      snd (snd (keepalive_task cancel_world 1 settled_client)))
                 \<or> keepalive_resume cancel_world 1 None settled_client
                   = (Some TaskCancelled, fst (snd (keepalive_task cancel_world 1 settled_client)),
                      snd (snd (keepalive_task cancel_world 1 settled_client)))"
    by (simp add: prod_eq_iff)
  show ?thesis
    using keepalive_task_ends [OF h1] keepalive_task_ends [OF h2] a b by simp
qed

text \<open>
  C7 as stated fails. In the example world with the outage nothing is ever cancelled.
  The keepalive task starts after the accepted login, passes its loop test and sleeps;
  meanwhile an iteration of the sync check task forces a login that the server rejects;
  the keepalive task wakes up, sends its request (whose forced login is rejected too),
  finds the event cleared at its loop test and returns.
\<close>

theorem keepalive_loop_exit_counterexample:
  "\<not> cancels outage_world
   \<and> authenticated outage_client = Some True
   \<and> authenticated outage_after_tick = Some False
   \<and> fst (keepalive_resume outage_world 1 None outage_after_tick) = Some LoopExit
   \<and> fst (keepalive_resume outage_world 1 None outage_after_tick) \<noteq> Some TaskCancelled"
proof -
  obtain hs tr where sh: "outage_client = online_client hs tr"
    using outage_shape by auto
  have "\<not> (9::nat) < 9"
    by simp
  from garbage_tick_shape [of "\<lambda>n. n < 9" hs tr, OF this]
  obtain hs' tr' where sh': "outage_after_tick = offline_client hs' tr'"
    by (auto simp: outage_after_tick_def sh outage_world_def)
  have "\<not> (12::nat) < 9"
    by simp
  from keepalive_resume_shape [of "\<lambda>n. n < 9" "''garbage''" hs' tr', OF this]
  have a: "fst (keepalive_resume outage_world 1 None outage_after_tick) = Some LoopExit"
    by (simp add: sh' outage_world_def)
  have c: "\<not> cancels outage_world"
    by (simp add: cancels_def outage_world_def demo_world_def demo_server_def split: option.splits)
  show ?thesis
    using a c by (simp add: sh sh' offline_client_simps online_client_def)
qed

subsection \<open>HTTP error statuses in the request executor\<close>

text \<open>
  C8, as the code has it. When the server answers a request of the executor with a
  status of 400 or more, in the set \<^verbatim>\<open>RECOVERABLE_ERRORS\<close> or not, the executor logs
  one message with \<^verbatim>\<open>LOG.exception\<close>, that is at level \<^verbatim>\<open>ERROR\<close>, and returns no
  response; the request has been sent exactly once and is not sent again.
\<close>

theorem http_error_status_not_retried:
  assumes "force_login \<longrightarrow> is_connected s"
    and "session_state s = Some False"
    and "m = ''GET'' \<or> m = ''POST''"
    and "http w (step s) \<lparr>req_method = m, req_url = make_url w uri s, req_params = p,
                           req_headers = h, req_timeout = Some t\<rparr> = Responded st body final_url"
    and "400 \<le> st"
  shows "fst (async_query w uri m p h force_login t s) = Inr None
       \<and> trace (snd (async_query w uri m p h force_login t s)) =
           trace s @
             [EvLog DEBUG ''Updating HTTP headers'', EvLog DEBUG ''Attempting request'',
              EvRequest \<lparr>req_method = m, req_url = make_url w uri s, req_params = p,
                         req_headers = h, req_timeout = Some t\<rparr>,
              EvLog ERROR ''Received HTTP error code in request to ADT Pulse'']
       \<and> step (snd (async_query w uri m p h force_login t s)) = Suc (step s)"
proof -
  have q: "async_query w uri m p h force_login t s = query_core w uri m p h t s"
    using assms(1) by (auto simp: async_query_def)
  from assms(2) obtain c where c: "session s = Some c" "\<not> session_closed c"
    by (auto dest: session_state_open)
  show ?thesis
    unfolding q using c assms(3-5) by (auto simp: query_core_def http_call_def)
qed

theorem http_error_status_not_retried_witness:
  "session_state session_client = Some False
   \<and> http failing_world (step session_client)
        \<lparr>req_method = ''GET'', req_url = make_url failing_world ''/orb'' session_client,
         req_params = None, req_headers = None, req_timeout = Some 1\<rparr>
       = Responded 503 ''unavailable'' ''https://h/myhome/16/orb''
   \<and> 503 \<in> set RECOVERABLE_ERRORS
   \<and> fst (async_query failing_world ''/orb'' ''GET'' None None False 1 session_client) = Inr None
   \<and> log_levels (trace (snd (async_query failing_world ''/orb'' ''GET'' None None False 1 session_client)))
       = [DEBUG, DEBUG, ERROR]
   \<and> length (requests (trace (snd (async_query failing_world ''/orb'' ''GET'' None None False 1 session_client))))
       = 1"
proof -
  have h1: "False \<longrightarrow> is_connected session_client"
    by simp
  have h2: "session_state session_client = Some False"
    by (simp add: session_state_def session_client_def)
  have h3: "''GET'' = ''GET'' \<or> ''GET'' = ''POST''"
    by simp
  have h4: "http failing_world (step session_client)
        \<lparr>req_method = ''GET'', req_url = make_url failing_world ''/orb'' session_client,
         req_params = None, req_headers = None, req_timeout = Some 1\<rparr>
       = Responded 503 ''unavailable'' ''https://h/myhome/16/orb''"
    by (simp add: failing_world_def failing_server_def demo_defs session_client_def make_url_def)
  have h5: "(400::nat) \<le> 503"
    by simp
  have tr: "trace session_client = []"
    by (simp add: session_client_def demo_client_def)
  show ?thesis
    using http_error_status_not_retried [OF h1 h2 h3 h4 h5] h2 h4
    by (simp add: tr RECOVERABLE_ERRORS_def)
qed

text \<open>
  C8 as stated fails: 503 is in the recoverable set and 404 is not, and the executor
  logs both failures at the same level.
\<close>

theorem recoverable_status_severity_counterexample:
  "503 \<in> set RECOVERABLE_ERRORS \<and> 404 \<notin> set RECOVERABLE_ERRORS
   \<and> http failing_world 1
        \<lparr>req_method = ''GET'', req_url = ''https://h/myhome/16/orb'',
         req_params = None, req_headers = None, req_timeout = Some 1\<rparr>
       = Responded 503 ''unavailable'' ''https://h/myhome/16/orb''
   \<and> http failing_world 1
        \<lparr>req_method = ''POST'', req_url = ''https://h/myhome/16/orb'',
         req_params = None, req_headers = None, req_timeout = Some 1\<rparr>
       = Responded 404 ''not found'' ''https://h/myhome/16/orb''
   \<and> log_levels (trace (snd (async_query failing_world ''/orb'' ''GET'' None None False 1 session_client)))
       = [DEBUG, DEBUG, ERROR]
   \<and> log_levels (trace (snd (async_query failing_world ''/orb'' ''POST'' None None False 1 session_client)))
       = [DEBUG, DEBUG, ERROR]
   \<and> \<not> severity (last (log_levels (trace (snd
           (async_query failing_world ''/orb'' ''GET'' None None False 1 session_client)))))
       < severity (last (log_levels (trace (snd
           (async_query failing_world ''/orb'' ''POST'' None None False 1 session_client)))))"
  by (simp add: prim_defs op_defs demo_defs failing_world_def failing_server_def
      session_client_def RECOVERABLE_ERRORS_def)

subsection \<open>The credentials\<close>



subsection \<open>The update signal before the first login\<close>

text \<open>
  C10. On an object whose update event is still \<^verbatim>\<open>None\<close> (no login has created it),
  the \<^verbatim>\<open>updates_exist\<close> property returns \<^verbatim>\<open>False\<close>, raises nothing and leaves the
  object as it is, whereas \<^verbatim>\<open>wait_for_update\<close> raises a \<^verbatim>\<open>RuntimeError\<close> instead
  of suspending the caller.
\<close>

theorem updates_exist_before_login:
  assumes "updates_exist_event s = None"
  shows "updates_exist s = (False, s)
         \<and> wait_for_update s = Inl (RuntimeError ''Update event does not exist'')"
  using assms by (simp add: updates_exist_def wait_for_update_def)

theorem updates_exist_before_login_witness:
  "pulse_new (demo_world failing_server) (Some ''a@b.co'') (Some ''pw'') (Some ''fp'') ''https://h'' ''agent'' None 2
     = Inr demo_client
   \<and> updates_exist_event demo_client = None
   \<and> updates_exist demo_client = (False, demo_client)
   \<and> wait_for_update demo_client = Inl (RuntimeError ''Update event does not exist'')"
proof -
  have h: "updates_exist_event demo_client = None"
    by (simp add: demo_client_def)
  show ?thesis
    using demo_client_new updates_exist_before_login [OF h] h by simp
qed

end
